theory Spec2Isabelle
  imports Main "HOL-Library.AList" "HOL-Library.Sublist"
begin

section \<open>Values shared by the services\<close>

text \<open>
  JavaScript tests optional strings by truthiness: \<open>undefined\<close> and the empty string
  are both falsy. Optional fields of the lockfile and of the manifests are
  \<open>string option\<close>; \<open>truthy\<close> is the test \<^verbatim>\<open>if (entry.field)\<close>.
\<close>

definition truthy :: "string option \<Rightarrow> bool" where
  "truthy v = (case v of None \<Rightarrow> False | Some s \<Rightarrow> s \<noteq> [])"

text \<open>
  Every \<^verbatim>\<open>throw new Error(msg)\<close> of the sources is a value of \<open>error\<close>; the
  constructor records the throw site, the argument the message.
  \<open>External\<close> is an error raised by a collaborator (axios, git, the file system, AdmZip),
  \<open>TypeError\<close> the one JavaScript raises on a property access on \<open>undefined\<close>.
\<close>

datatype error =
    ChecksumError string
  | ExtractError string
  | FileNotFound string
  | TypeError string
  | External string

fun message :: "error \<Rightarrow> string" where
  "message (ChecksumError m) = m"
| "message (ExtractError m) = m"
| "message (FileNotFound m) = m"
| "message (TypeError m) = m"
| "message (External m) = m"

datatype log_entry =
    Debug string
  | Info string
  | Warn string
  | LogError string
  | Success string
  | Log string
  | UpdateSpinner string
  | FailSpinner string
  | SucceedSpinner string

subsection \<open>Plugin configuration and settings document\<close>

record components_rec =
  skills :: "string list option"
  agents :: "string list option"
  commands :: "string list option"
  hooks :: "string list option"

record mcp_server_config =
  mcp_type :: string
  mcp_command :: "string option"
  mcp_url :: "string option"

record plugin_config =
  pc_name :: string
  pc_version :: string
  pc_type :: string
  pc_enabled :: bool
  pc_installPath :: "string list"
  pc_installedAt :: string
  pc_dependencies :: "string list"
  pc_isDependency :: bool
  pc_description :: "string option"
  pc_author :: "string option"
  pc_license :: "string option"
  pc_homepage :: "string option"
  pc_repository :: "string option"
  pc_keywords :: "string list option"
  pc_components :: "components_rec option"
  pc_scripts :: "(string \<times> string) list option"

text \<open>
  \<open>JSON.parse\<close> does not validate: a settings document read from disk may lack
  its \<open>plugins\<close> object, so the field is optional in the model, as \<open>mcpServers\<close> is
  in the source.
\<close>

record claude_settings =
  cs_version :: string
  cs_installPath :: string
  cs_updatedAt :: string
  cs_plugins :: "(string \<times> plugin_config) list option"
  cs_mcpServers :: "(string \<times> mcp_server_config) list option"

text \<open>
  The settings file is either absent, present but unreadable, or holds a text;
  the text either fails \<open>JSON.parse\<close> or parses to a settings value.
\<close>

datatype settings_text = Garbage string | Json claude_settings

datatype settings_file = Absent | Unreadable string | Text settings_text

subsection \<open>Lockfile and project manifest\<close>

record lock_entry =
  le_version :: string
  le_resolved :: "string option"
  le_git :: "string option"
  le_branch :: "string option"
  le_tag :: "string option"
  le_commit :: "string option"
  le_path :: "string option"
  le_file :: "string option"
  le_integrity :: "string option"
  le_type :: string
  le_author :: "string option"
  le_registry :: "string option"
  le_dependencies :: "(string \<times> string) list option"
  le_installedAs :: "string option"

record plugin_tree_node =
  pt_version :: string
  pt_dependencies :: "string list option"
  pt_requiredBy :: "string list option"
  pt_isDependency :: bool

text \<open>
  JavaScript objects keep their keys in insertion order and \<open>Object.entries\<close>
  follows it: the maps of the lockfile are association lists.
\<close>

record craftdesk_lock =
  cl_version :: string
  cl_lockfileVersion :: nat
  cl_crafts :: "(string \<times> lock_entry) list"
  cl_pluginTree :: "(string \<times> plugin_tree_node) list option"

text \<open>
  A dependency of \<open>craftdesk.json\<close> is a version string or an object with git
  fields; an object is always truthy, a string when it is not empty.
\<close>

datatype dep_value = DepString string | DepObject "(string \<times> string) list"

record craftdesk_json =
  cj_name :: string
  cj_version :: string
  cj_dependencies :: "(string \<times> dep_value) list option"
  cj_devDependencies :: "(string \<times> dep_value) list option"
  cj_optionalDependencies :: "(string \<times> dep_value) list option"
  cj_peerDependencies :: "(string \<times> dep_value) list option"

subsection \<open>Files on disk\<close>

record craft_metadata =
  md_name :: string
  md_version :: string
  md_type :: string
  md_author :: "string option"
  md_installedAt :: string
  md_registry :: "string option"
  md_dependencies :: "(string \<times> string) list option"

datatype mcp_field =
    McpInline "(string \<times> mcp_server_config) list"
  | McpPath string

record plugin_manifest =
  pm_description :: "string option"
  pm_author :: "string option"
  pm_license :: "string option"
  pm_homepage :: "string option"
  pm_repository :: "string option"
  pm_keywords :: "string list option"
  pm_components :: "components_rec option"
  pm_scripts :: "(string \<times> string) list option"
  pm_mcpServers :: "mcp_field option"

text \<open>
  A file holds raw bytes or a JSON document; a JSON document is kept as the value
  \<open>JSON.parse\<close> yields for it. A path is the list of its segments; the disk is an
  association list from paths to nodes, in creation order. A directory exists when
  it has an entry of its own or when some entry lies below it.
\<close>

datatype file_data =
    Raw string
  | MetadataJson craft_metadata
  | ManifestJson plugin_manifest
  | McpJson "(string \<times> mcp_server_config) list"
  | CraftDeskJson craftdesk_json
  | LockJson craftdesk_lock

datatype node = File file_data | Directory

type_synonym path = "string list"

type_synonym disk = "(path \<times> node) list"

subsection \<open>The world and the effects\<close>

record world =
  files :: disk
  settings :: settings_file
  logs :: "log_entry list"

type_synonym 'a io = "world \<Rightarrow> (error + 'a) \<times> world"

definition io_return :: "'a \<Rightarrow> 'a io" where
  "io_return x = (\<lambda>w. (Inr x, w))"

definition io_throw :: "error \<Rightarrow> 'a io" where
  "io_throw e = (\<lambda>w. (Inl e, w))"

definition io_bind :: "'a io \<Rightarrow> ('a \<Rightarrow> 'b io) \<Rightarrow> 'b io" where
  "io_bind m f = (\<lambda>w. case m w of (Inl e, w') \<Rightarrow> (Inl e, w') | (Inr x, w') \<Rightarrow> f x w')"

definition io_then :: "'a io \<Rightarrow> 'b io \<Rightarrow> 'b io" where
  "io_then m k = io_bind m (\<lambda>_. k)"

text \<open>\<^verbatim>\<open>try { m } catch (error) { h error }\<close>\<close>

definition io_catch :: "'a io \<Rightarrow> (error \<Rightarrow> 'a io) \<Rightarrow> 'a io" where
  "io_catch m h = (\<lambda>w. case m w of (Inl e, w') \<Rightarrow> h e w' | (Inr x, w') \<Rightarrow> (Inr x, w'))"

text \<open>
  \<^verbatim>\<open>try { m } finally { c }\<close>: \<open>c\<close> runs on both exits; the outcome of \<open>m\<close> is kept
  unless \<open>c\<close> itself throws.
\<close>

definition io_finally :: "'a io \<Rightarrow> unit io \<Rightarrow> 'a io" where
  "io_finally m c = (\<lambda>w. case m w of (r, w') \<Rightarrow>
     (case c w' of (Inl e, w'') \<Rightarrow> (Inl e, w'') | (Inr _, w'') \<Rightarrow> (r, w'')))"

definition logger :: "log_entry \<Rightarrow> unit io" where
  "logger l = (\<lambda>w. (Inr (), w\<lparr>logs := logs w @ [l]\<rparr>))"

section \<open>SettingsManager (src/services/settings-manager.ts)\<close>

text \<open>
  The clock and the failure of a write to the settings file are outside the
  program: \<open>sm_now\<close> is the value of \<^verbatim>\<open>new Date().toISOString()\<close>, and
  \<open>sm_write_error\<close>, when set, is the error \<open>fs.ensureDir\<close>/\<open>fs.writeFile\<close> raise.
\<close>

record settings_env =
  sm_installDir :: string
  sm_now :: string
  sm_write_error :: "error option"

definition createDefaultSettings :: "settings_env \<Rightarrow> claude_settings" where
  "createDefaultSettings env =
     \<lparr>cs_version = ''1.0.0'', cs_installPath = sm_installDir env,
      cs_updatedAt = sm_now env, cs_plugins = Some [], cs_mcpServers = None\<rparr>"

definition settings_pathExists :: "bool io" where
  "settings_pathExists = (\<lambda>w. (Inr (settings w \<noteq> Absent), w))"

definition settings_readFile :: "settings_text io" where
  "settings_readFile = (\<lambda>w. case settings w of
       Absent \<Rightarrow> (Inl (External ''ENOENT: no such file or directory''), w)
     | Unreadable m \<Rightarrow> (Inl (External m), w)
     | Text t \<Rightarrow> (Inr t, w))"

definition JSON_parse :: "settings_text \<Rightarrow> claude_settings io" where
  "JSON_parse t = (case t of
       Garbage m \<Rightarrow> io_throw (External m)
     | Json s \<Rightarrow> io_return s)"

definition readSettings :: "settings_env \<Rightarrow> claude_settings io" where
  "readSettings env =
     io_catch
       (io_bind settings_pathExists (\<lambda>ex.
          if ex then
            io_bind settings_readFile (\<lambda>content.
            io_bind (JSON_parse content) (\<lambda>s.
            io_return s))
          else io_return (createDefaultSettings env)))
       (\<lambda>e.
          io_then (logger (Warn (''Failed to read settings file: '' @ message e)))
         (io_then (logger (Debug ''Returning default settings''))
         (io_return (createDefaultSettings env))))"

definition settings_writeFile :: "settings_env \<Rightarrow> claude_settings \<Rightarrow> unit io" where
  "settings_writeFile env s = (\<lambda>w. case sm_write_error env of
       Some e \<Rightarrow> (Inl e, w)
     | None \<Rightarrow> (Inr (), w\<lparr>settings := Text (Json s)\<rparr>))"

definition writeSettings :: "settings_env \<Rightarrow> claude_settings \<Rightarrow> unit io" where
  "writeSettings env s =
     io_catch
       (io_then (settings_writeFile env (s\<lparr>cs_updatedAt := sm_now env\<rparr>))
                (logger (Debug (''Updated settings file: '' @ sm_installDir env @ ''/settings.json''))))
       (\<lambda>e. io_then (logger (LogError (''Failed to write settings file: '' @ message e)))
                     (io_throw e))"

definition sm_registerPlugin :: "settings_env \<Rightarrow> plugin_config \<Rightarrow> unit io" where
  "sm_registerPlugin env config =
     io_bind (readSettings env) (\<lambda>s.
       case cs_plugins s of
         None \<Rightarrow> io_throw (TypeError ''Cannot set properties of undefined'')
       | Some ps \<Rightarrow>
           io_then (writeSettings env
              (s\<lparr>cs_plugins := Some (AList.update (pc_name config)
                    (config\<lparr>pc_installedAt :=
                       (if pc_installedAt config \<noteq> [] then pc_installedAt config else sm_now env)\<rparr>)
                    ps)\<rparr>))
             (logger (Info (''Registered plugin: '' @ pc_name config @ ''@'' @ pc_version config))))"

definition sm_unregisterPlugin :: "settings_env \<Rightarrow> string \<Rightarrow> unit io" where
  "sm_unregisterPlugin env pluginName =
     io_bind (readSettings env) (\<lambda>s.
       case cs_plugins s of
         None \<Rightarrow> io_throw (TypeError ''Cannot read properties of undefined'')
       | Some ps \<Rightarrow>
           (if map_of ps pluginName = None
            then logger (Warn (''Plugin not found in settings: '' @ pluginName))
            else
              io_then (writeSettings env (s\<lparr>cs_plugins := Some (AList.delete pluginName ps)\<rparr>))
                (logger (Info (''Unregistered plugin: '' @ pluginName)))))"

definition sm_registerMCPServer :: "settings_env \<Rightarrow> string \<Rightarrow> mcp_server_config \<Rightarrow> unit io" where
  "sm_registerMCPServer env serverName config =
     io_bind (readSettings env) (\<lambda>s.
       io_then (writeSettings env
          (s\<lparr>cs_mcpServers := Some (AList.update serverName config
                (case cs_mcpServers s of None \<Rightarrow> [] | Some ms \<Rightarrow> ms))\<rparr>))
         (logger (Info (''Registered MCP server: '' @ serverName))))"

text \<open>The three states of the settings file in which reading it fails.\<close>

definition settings_corrupt :: "settings_file \<Rightarrow> bool" where
  "settings_corrupt f = (case f of
       Absent \<Rightarrow> True
     | Unreadable _ \<Rightarrow> True
     | Text (Garbage _) \<Rightarrow> True
     | Text (Json _) \<Rightarrow> False)"

section \<open>Paths and the file system\<close>

text \<open>
  \<open>path.join\<close> of Node splits at the separator and normalises: empty and \<open>.\<close>
  segments vanish, \<open>..\<close> removes the segment before it (and stays at the root of an
  absolute path). All paths of the installer start from \<open>process.cwd()\<close>, which is
  absolute, so a path is the list of its segments below the root.
\<close>

fun split_on :: "char \<Rightarrow> string \<Rightarrow> string \<Rightarrow> string list" where
  "split_on c acc [] = [rev acc]"
| "split_on c acc (x # xs) =
     (if x = c then rev acc # split_on c [] xs else split_on c (x # acc) xs)"

definition segments :: "string \<Rightarrow> string list" where
  "segments s = split_on (CHR ''/'') [] s"

fun normalize :: "string list \<Rightarrow> string list \<Rightarrow> string list" where
  "normalize st [] = rev st"
| "normalize st (s # ss) =
     (if s = [] \<or> s = ''.'' then normalize st ss
      else if s = ''..'' then normalize (tl st) ss
      else normalize (s # st) ss)"

definition path_join :: "path \<Rightarrow> string \<Rightarrow> path" where
  "path_join base s = normalize (rev base) (segments s)"

text \<open>\<open>path.basename\<close>: the last segment, trailing separators ignored.\<close>

definition basename :: "string \<Rightarrow> string" where
  "basename s = (case filter (\<lambda>x. x \<noteq> []) (segments s) of [] \<Rightarrow> [] | xs \<Rightarrow> last xs)"

definition pathExists :: "disk \<Rightarrow> path \<Rightarrow> bool" where
  "pathExists fs p = list_ex (\<lambda>(q, _). prefix p q) fs"

definition isFile :: "disk \<Rightarrow> path \<Rightarrow> bool" where
  "isFile fs p = (case map_of fs p of Some (File _) \<Rightarrow> True | _ \<Rightarrow> False)"

definition isDirectory :: "disk \<Rightarrow> path \<Rightarrow> bool" where
  "isDirectory fs p = (pathExists fs p \<and> \<not> isFile fs p)"

text \<open>The names of the entries directly below a directory, each once.\<close>

definition children :: "disk \<Rightarrow> path \<Rightarrow> string list" where
  "children fs p =
     remdups (map (\<lambda>(q, _). q ! length p) (filter (\<lambda>(q, _). strict_prefix p q) fs))"

definition remove_entries :: "path \<Rightarrow> disk \<Rightarrow> disk" where
  "remove_entries p fs = filter (\<lambda>(q, _). \<not> prefix p q) fs"

text \<open>
  Removing the last entry of a directory leaves the directory: it gets an entry of
  its own when nothing else keeps it in existence.
\<close>

definition remove_path :: "path \<Rightarrow> disk \<Rightarrow> disk" where
  "remove_path p fs =
     (let fs' = remove_entries p fs
      in if p \<noteq> [] \<and> pathExists fs p \<and> \<not> pathExists fs' (butlast p)
         then fs' @ [(butlast p, Directory)] else fs')"

definition write_tree :: "path \<Rightarrow> (path \<times> node) list \<Rightarrow> disk \<Rightarrow> disk" where
  "write_tree dst tree fs = fold (\<lambda>(p, n). AList.update (dst @ p) n) tree fs"

definition copy_entries :: "path \<Rightarrow> path \<Rightarrow> disk \<Rightarrow> disk" where
  "copy_entries src dst fs =
     write_tree dst (map (\<lambda>(q, n). (drop (length src) q, n))
                        (filter (\<lambda>(q, _). prefix src q) fs)) fs"

definition fs_pathExists :: "path \<Rightarrow> bool io" where
  "fs_pathExists p = (\<lambda>w. (Inr (pathExists (files w) p), w))"

definition fs_ensureDir :: "path \<Rightarrow> unit io" where
  "fs_ensureDir p = (\<lambda>w.
     if isFile (files w) p then (Inl (External ''EEXIST: file already exists''), w)
     else if pathExists (files w) p then (Inr (), w)
     else (Inr (), w\<lparr>files := files w @ [(p, Directory)]\<rparr>))"

definition fs_writeFile :: "path \<Rightarrow> file_data \<Rightarrow> unit io" where
  "fs_writeFile p d = (\<lambda>w.
     if isDirectory (files w) p then (Inl (External ''EISDIR: illegal operation on a directory''), w)
     else if \<not> pathExists (files w) (butlast p)
       then (Inl (External ''ENOENT: no such file or directory''), w)
     else (Inr (), w\<lparr>files := AList.update p (File d) (files w)\<rparr>))"

definition fs_readFile :: "path \<Rightarrow> file_data io" where
  "fs_readFile p = (\<lambda>w.
     case map_of (files w) p of
       Some (File d) \<Rightarrow> (Inr d, w)
     | _ \<Rightarrow> (if pathExists (files w) p
             then (Inl (External ''EISDIR: illegal operation on a directory''), w)
             else (Inl (External ''ENOENT: no such file or directory''), w)))"

text \<open>\<open>fs.remove\<close> of fs-extra: recursive, silent when the path does not exist.\<close>

definition fs_remove :: "path \<Rightarrow> unit io" where
  "fs_remove p = (\<lambda>w. (Inr (), w\<lparr>files := remove_path p (files w)\<rparr>))"

definition fs_readdir :: "path \<Rightarrow> string list io" where
  "fs_readdir p = (\<lambda>w.
     if \<not> pathExists (files w) p then (Inl (External ''ENOENT: no such file or directory''), w)
     else if isFile (files w) p then (Inl (External ''ENOTDIR: not a directory''), w)
     else (Inr (children (files w) p), w))"

text \<open>
  \<open>fs.copy\<close> of fs-extra with \<open>overwrite: true\<close>: recursive, merging into an
  existing directory; it refuses a missing source and a destination at or below the
  source.
\<close>

definition fs_copy :: "path \<Rightarrow> path \<Rightarrow> unit io" where
  "fs_copy src dst = (\<lambda>w.
     if \<not> pathExists (files w) src then (Inl (External ''ENOENT: no such file or directory''), w)
     else if prefix src dst
       then (Inl (External ''Cannot copy to itself or to a subdirectory of itself''), w)
     else (Inr (), w\<lparr>files := copy_entries src dst (files w)\<rparr>))"

fun io_foreach :: "'a list \<Rightarrow> ('a \<Rightarrow> unit io) \<Rightarrow> unit io" where
  "io_foreach [] f = io_return ()"
| "io_foreach (x # xs) f = io_then (f x) (io_foreach xs f)"

section \<open>Installer (src/services/installer.ts)\<close>

subsection \<open>Collaborators\<close>

text \<open>
  What the installer takes from outside the program is a field of the
  environment: the working directory, the configured install path, the clock, the
  HTTP download, the checksum helpers of \<open>utils/crypto\<close> (not part of the sources at
  hand, so taken as parameters), the ZIP decoder and the three git commands. A git
  clone yields the working tree of the requested ref and whether the clone is
  shallow.
\<close>

record git_clone_result =
  gc_tree :: "(path \<times> node) list"
  gc_shallow :: bool

record installer_env =
  cwd :: path
  installPath :: string
  now :: string
  sm_env :: settings_env
  http_get :: "string option \<Rightarrow> error + string"
  verifyFileChecksum :: "string \<Rightarrow> string \<Rightarrow> bool"
  formatChecksum :: "string \<Rightarrow> string"
  unzip :: "string \<Rightarrow> error + (path \<times> node) list"
  git_clone_cmd :: "string \<Rightarrow> string option \<Rightarrow> error + git_clone_result"
  git_fetch_unshallow :: "string \<Rightarrow> error option"
  git_checkout_cmd :: "string \<Rightarrow> string \<Rightarrow> error + (path \<times> node) list"

definition show_path :: "path \<Rightarrow> string" where
  "show_path p = concat (map (\<lambda>s. CHR ''/'' # s) p)"

text \<open>A template literal prints a missing value as \<open>undefined\<close>.\<close>

definition show_opt :: "string option \<Rightarrow> string" where
  "show_opt v = (case v of None \<Rightarrow> ''undefined'' | Some s \<Rightarrow> s)"

text \<open>Decimal digits, for the counters of the progress messages.\<close>

definition show_digit :: "nat \<Rightarrow> char" where
  "show_digit n = ''0123456789'' ! (n mod 10)"

fun show_nat :: "nat \<Rightarrow> string" where
  "show_nat n = (if n < 10 then [show_digit n] else show_nat (n div 10) @ [show_digit (n mod 10)])"

declare show_nat.simps [simp del]

definition installDir :: "installer_env \<Rightarrow> path" where
  "installDir env = path_join (cwd env) (installPath env)"

definition getTypeDirectory :: "string \<Rightarrow> string" where
  "getTypeDirectory t =
     (if t = ''skill'' then ''skills''
      else if t = ''agent'' then ''agents''
      else if t = ''command'' then ''commands''
      else if t = ''hook'' then ''hooks''
      else if t = ''plugin'' then ''plugins''
      else ''crafts'')"

definition craftDir_of :: "installer_env \<Rightarrow> string \<Rightarrow> string \<Rightarrow> path" where
  "craftDir_of env t name = path_join (path_join (installDir env) (getTypeDirectory t)) name"

subsection \<open>Registry source\<close>

definition downloadFile :: "installer_env \<Rightarrow> string option \<Rightarrow> path \<Rightarrow> unit io" where
  "downloadFile env url outputPath =
     (case http_get env url of
        Inl e \<Rightarrow> io_throw e
      | Inr bytes \<Rightarrow> fs_writeFile outputPath (Raw bytes))"

definition verify_archive :: "installer_env \<Rightarrow> path \<Rightarrow> string \<Rightarrow> bool io" where
  "verify_archive env archivePath expected =
     io_bind (fs_readFile archivePath) (\<lambda>d.
       io_return (case d of Raw bytes \<Rightarrow> verifyFileChecksum env bytes expected | _ \<Rightarrow> False))"

definition extractAllTo :: "installer_env \<Rightarrow> path \<Rightarrow> path \<Rightarrow> unit io" where
  "extractAllTo env archivePath outputDir =
     io_bind (fs_readFile archivePath) (\<lambda>d.
       case (case d of Raw bytes \<Rightarrow> unzip env bytes
                     | _ \<Rightarrow> Inl (External ''Invalid or unsupported zip format'')) of
         Inl e \<Rightarrow> io_throw e
       | Inr entries \<Rightarrow> (\<lambda>w. (Inr (), w\<lparr>files := write_tree outputDir entries (files w)\<rparr>)))"

definition extractArchive :: "installer_env \<Rightarrow> path \<Rightarrow> path \<Rightarrow> unit io" where
  "extractArchive env archivePath outputDir =
     io_catch
       (io_then (extractAllTo env archivePath outputDir)
                (logger (Debug (''Extracted ZIP archive to '' @ show_path outputDir))))
       (\<lambda>e. io_throw (ExtractError (''Failed to extract archive: '' @ message e)))"

definition createMetadata :: "installer_env \<Rightarrow> path \<Rightarrow> string \<Rightarrow> lock_entry \<Rightarrow> unit io" where
  "createMetadata env craftDir name entry =
     fs_writeFile (path_join craftDir ''.craftdesk-metadata.json'')
       (MetadataJson \<lparr>md_name = name, md_version = le_version entry, md_type = le_type entry,
          md_author = le_author entry, md_installedAt = now env, md_registry = le_registry entry,
          md_dependencies = le_dependencies entry\<rparr>)"

subsection \<open>Git source\<close>

text \<open>
  \<open>git clone\<close> refuses a destination that exists and is not an empty directory;
  otherwise it fills it with the working tree and a \<open>.git\<close> directory, which holds
  a \<open>shallow\<close> marker when the history was cut.
\<close>

definition git_clone :: "installer_env \<Rightarrow> string \<Rightarrow> string option \<Rightarrow> path \<Rightarrow> unit io" where
  "git_clone env url ref tempDir = (\<lambda>w.
     if pathExists (files w) tempDir \<and> (isFile (files w) tempDir \<or> children (files w) tempDir \<noteq> [])
     then (Inl (External ''fatal: destination path already exists and is not an empty directory''), w)
     else (case git_clone_cmd env url ref of
        Inl e \<Rightarrow> (Inl e, w)
      | Inr c \<Rightarrow> (Inr (), w\<lparr>files := write_tree tempDir
            (([''.git''], Directory) #
             (if gc_shallow c then [([''.git'', ''shallow''], File (Raw []))] else []) @
             gc_tree c) (files w)\<rparr>)))"

definition git_unshallow :: "installer_env \<Rightarrow> string \<Rightarrow> path \<Rightarrow> unit io" where
  "git_unshallow env url tempDir = (\<lambda>w.
     case git_fetch_unshallow env url of
       Some e \<Rightarrow> (Inl e, w)
     | None \<Rightarrow> (Inr (), w\<lparr>files := remove_entries (tempDir @ [''.git'', ''shallow'']) (files w)\<rparr>))"

text \<open>\<open>git checkout\<close> replaces the working tree and keeps \<open>.git\<close>.\<close>

definition git_checkout :: "installer_env \<Rightarrow> string \<Rightarrow> string \<Rightarrow> path \<Rightarrow> unit io" where
  "git_checkout env url commit tempDir = (\<lambda>w.
     case git_checkout_cmd env url commit of
       Inl e \<Rightarrow> (Inl e, w)
     | Inr tree \<Rightarrow> (Inr (), w\<lparr>files := write_tree tempDir tree
          (filter (\<lambda>(q, _). \<not> strict_prefix tempDir q \<or> prefix (tempDir @ [''.git'']) q)
                  (files w))\<rparr>))"

definition clone_ref :: "lock_entry \<Rightarrow> string option" where
  "clone_ref entry =
     (if truthy (le_branch entry) then le_branch entry
      else if truthy (le_tag entry) then le_tag entry
      else None)"

definition cloneCmd :: "lock_entry \<Rightarrow> path \<Rightarrow> string" where
  "cloneCmd entry tempDir =
     ''git clone --depth 1'' @
     (if truthy (le_branch entry) then '' -b '' @ show_opt (le_branch entry)
      else if truthy (le_tag entry) then '' -b '' @ show_opt (le_tag entry)
      else []) @
     '' '' @ show_opt (le_git entry) @ '' '' @ show_path tempDir"

definition git_extract :: "path \<Rightarrow> path \<Rightarrow> lock_entry \<Rightarrow> unit io" where
  "git_extract tempDir craftDir entry =
     (if truthy (le_file entry) then
        (let sourceFile = path_join tempDir (show_opt (le_file entry));
             destFile = path_join craftDir (basename (show_opt (le_file entry)))
         in io_bind (fs_pathExists sourceFile) (\<lambda>ex.
              if ex then fs_copy sourceFile destFile
              else io_throw (FileNotFound (''File not found: '' @ show_opt (le_file entry) @
                                           '' in '' @ show_opt (le_git entry)))))
      else
        (let sourcePath = (if truthy (le_path entry)
                           then path_join tempDir (show_opt (le_path entry)) else tempDir)
         in io_bind (fs_readdir sourcePath) (\<lambda>names.
              io_foreach names (\<lambda>file.
                if file \<noteq> ''.tmp-git'' \<and> file \<noteq> ''.git''
                then fs_copy (sourcePath @ [file]) (craftDir @ [file])
                else io_return ()))))"

definition installFromGit :: "installer_env \<Rightarrow> path \<Rightarrow> lock_entry \<Rightarrow> unit io" where
  "installFromGit env craftDir entry =
     (let tempDir = path_join craftDir ''.tmp-git''
      in io_finally
           (io_then (logger (Debug (''Cloning git repository: '' @ cloneCmd entry tempDir)))
           (io_then (git_clone env (show_opt (le_git entry)) (clone_ref entry) tempDir)
           (io_then
              (if truthy (le_commit entry) then
                 io_bind (fs_pathExists (path_join (path_join tempDir ''.git'') ''shallow'')) (\<lambda>isShallow.
                 io_then (if isShallow then git_unshallow env (show_opt (le_git entry)) tempDir
                          else io_return ())
                         (git_checkout env (show_opt (le_git entry)) (show_opt (le_commit entry)) tempDir))
               else io_return ())
              (git_extract tempDir craftDir entry))))
           (fs_remove tempDir))"

subsection \<open>Plugin registration\<close>

text \<open>
  The manifest is \<open>.claude-plugin/plugin.json\<close>. A file that is not a manifest
  document fails to parse; every failure yields \<open>null\<close>.
\<close>

definition readPluginManifest :: "path \<Rightarrow> plugin_manifest option io" where
  "readPluginManifest pluginDir =
     (let manifestPath = path_join (path_join pluginDir ''.claude-plugin'') ''plugin.json''
      in io_catch
           (io_bind (fs_pathExists manifestPath) (\<lambda>ex.
              if ex then
                io_bind (fs_readFile manifestPath) (\<lambda>content.
                  case content of
                    ManifestJson m \<Rightarrow> io_return (Some m)
                  | _ \<Rightarrow> io_throw (External ''Unexpected token in JSON''))
              else io_return None))
           (\<lambda>e. io_then (logger (Debug (''Failed to read plugin manifest: '' @ message e)))
                         (io_return None)))"

text \<open>\<open>fs.readdir\<close> with \<open>withFileTypes\<close>: each name with whether it is a directory.\<close>

definition fs_readdir_types :: "path \<Rightarrow> (string \<times> bool) list io" where
  "fs_readdir_types p =
     io_bind (fs_readdir p) (\<lambda>names. (\<lambda>w.
       (Inr (map (\<lambda>n. (n, isDirectory (files w) (p @ [n]))) names), w)))"

definition scan_type :: "path \<Rightarrow> string \<Rightarrow> string list option io" where
  "scan_type pluginDir ty =
     (let typeDir = path_join pluginDir ty
      in io_bind (fs_pathExists typeDir) (\<lambda>ex.
           if ex then
             io_catch
               (io_bind (fs_readdir_types typeDir) (\<lambda>entries.
                  let items =
                    (if ty = ''commands'' \<or> ty = ''hooks''
                     then map fst (filter (\<lambda>(n, isDir). \<not> isDir \<and> suffix ''.md'' n) entries)
                     else map fst (filter (\<lambda>(n, isDir). isDir) entries))
                  in io_return (if items \<noteq> [] then Some items else None)))
               (\<lambda>e. io_then (logger (Debug (''Failed to scan '' @ ty @ '' directory: '' @ message e)))
                             (io_return None))
           else io_return None))"

definition scanPluginComponents :: "path \<Rightarrow> components_rec io" where
  "scanPluginComponents pluginDir =
     io_bind (scan_type pluginDir ''skills'') (\<lambda>s.
     io_bind (scan_type pluginDir ''agents'') (\<lambda>a.
     io_bind (scan_type pluginDir ''commands'') (\<lambda>c.
     io_bind (scan_type pluginDir ''hooks'') (\<lambda>h.
     io_return \<lparr>skills = s, agents = a, commands = c, hooks = h\<rparr>))))"

text \<open>
  The merge of \<open>registerPlugin\<close>: the scanned lists first, then each list the
  manifest declares over it. An array is truthy in JavaScript even when empty.
\<close>

definition merge_components :: "components_rec \<Rightarrow> plugin_manifest option \<Rightarrow> components_rec" where
  "merge_components scanned manifest =
     (let c0 = \<lparr>skills = None, agents = None, commands = None, hooks = None\<rparr>;
          c1 = (if skills scanned \<noteq> None then c0\<lparr>skills := skills scanned\<rparr> else c0);
          c2 = (if agents scanned \<noteq> None then c1\<lparr>agents := agents scanned\<rparr> else c1);
          c3 = (if commands scanned \<noteq> None then c2\<lparr>commands := commands scanned\<rparr> else c2);
          c4 = (if hooks scanned \<noteq> None then c3\<lparr>hooks := hooks scanned\<rparr> else c3)
      in case manifest of
           None \<Rightarrow> c4
         | Some m \<Rightarrow>
            (case pm_components m of
               None \<Rightarrow> c4
             | Some mc \<Rightarrow>
                (let d1 = (if skills mc \<noteq> None then c4\<lparr>skills := skills mc\<rparr> else c4);
                     d2 = (if agents mc \<noteq> None then d1\<lparr>agents := agents mc\<rparr> else d1);
                     d3 = (if commands mc \<noteq> None then d2\<lparr>commands := commands mc\<rparr> else d2);
                     d4 = (if hooks mc \<noteq> None then d3\<lparr>hooks := hooks mc\<rparr> else d3)
                 in d4)))"

text \<open>\<open>path.relative\<close> between two absolute, normalised paths.\<close>

definition path_relative :: "path \<Rightarrow> path \<Rightarrow> path" where
  "path_relative src dst =
     (let common = longest_common_prefix src dst
      in replicate (length src - length common) ''..'' @ drop (length common) dst)"

definition manifest_str :: "plugin_manifest option \<Rightarrow> (plugin_manifest \<Rightarrow> string option) \<Rightarrow> string option" where
  "manifest_str manifest field =
     (case manifest of None \<Rightarrow> None
      | Some m \<Rightarrow> (if truthy (field m) then field m else None))"

definition pluginConfig :: "installer_env \<Rightarrow> string \<Rightarrow> lock_entry \<Rightarrow> path \<Rightarrow>
    plugin_manifest option \<Rightarrow> components_rec \<Rightarrow> plugin_config" where
  "pluginConfig env name entry craftDir manifest components =
     \<lparr>pc_name = name,
      pc_version = le_version entry,
      pc_type = ''plugin'',
      pc_enabled = True,
      pc_installPath = path_relative (installDir env) craftDir,
      pc_installedAt = now env,
      pc_dependencies = (case le_dependencies entry of None \<Rightarrow> [] | Some ds \<Rightarrow> map fst ds),
      pc_isDependency = (le_installedAs entry = Some ''dependency''),
      pc_description = manifest_str manifest pm_description,
      pc_author = manifest_str manifest pm_author,
      pc_license = manifest_str manifest pm_license,
      pc_homepage = manifest_str manifest pm_homepage,
      pc_repository = manifest_str manifest pm_repository,
      pc_keywords = (case manifest of None \<Rightarrow> None | Some m \<Rightarrow> pm_keywords m),
      pc_components =
        (if skills components \<noteq> None \<or> agents components \<noteq> None \<or>
            commands components \<noteq> None \<or> hooks components \<noteq> None
         then Some components else None),
      pc_scripts = (case manifest of None \<Rightarrow> None | Some m \<Rightarrow> pm_scripts m)\<rparr>"

definition fs_readJson_mcp :: "path \<Rightarrow> (string \<times> mcp_server_config) list io" where
  "fs_readJson_mcp p =
     io_bind (fs_readFile p) (\<lambda>content.
       case content of
         McpJson servers \<Rightarrow> io_return servers
       | _ \<Rightarrow> io_throw (External ''Unexpected token in JSON''))"

definition register_mcp_servers :: "installer_env \<Rightarrow> path \<Rightarrow> plugin_manifest option \<Rightarrow> unit io" where
  "register_mcp_servers env craftDir manifest =
     (case manifest of
        None \<Rightarrow> io_return ()
      | Some m \<Rightarrow>
         (case pm_mcpServers m of
            None \<Rightarrow> io_return ()
          | Some (McpInline servers) \<Rightarrow>
              io_foreach servers (\<lambda>(serverName, serverConfig).
                io_then (sm_registerMCPServer (sm_env env) serverName serverConfig)
                        (logger (Debug (''Registered MCP server: '' @ serverName))))
          | Some (McpPath file) \<Rightarrow>
              (if file = [] then io_return ()
               else
                 (let mcpPath = path_join craftDir file
                  in io_bind (fs_pathExists mcpPath) (\<lambda>ex.
                       if ex then
                         io_catch
                           (io_bind (fs_readJson_mcp mcpPath) (\<lambda>mcpConfig.
                              io_foreach mcpConfig (\<lambda>(serverName, serverConfig).
                                io_then (sm_registerMCPServer (sm_env env) serverName serverConfig)
                                        (logger (Debug (''Registered MCP server from '' @ file @
                                                        '': '' @ serverName))))))
                           (\<lambda>e. logger (Warn (''Failed to read MCP config from '' @ file @
                                               '': '' @ message e)))
                       else io_return ())))))"

definition registerPlugin :: "installer_env \<Rightarrow> string \<Rightarrow> lock_entry \<Rightarrow> path \<Rightarrow> unit io" where
  "registerPlugin env name entry craftDir =
     io_catch
       (io_bind (readPluginManifest craftDir) (\<lambda>manifest.
        io_bind (scanPluginComponents craftDir) (\<lambda>scannedComponents.
        io_then (sm_registerPlugin (sm_env env)
                   (pluginConfig env name entry craftDir manifest
                      (merge_components scannedComponents manifest)))
       (io_then (logger (Debug (''Registered plugin '' @ name @ '' in settings.json'')))
                (register_mcp_servers env craftDir manifest)))))
       (\<lambda>e. logger (Warn (''Failed to register plugin '' @ name @ '': '' @ message e)))"

subsection \<open>Installing, removing and listing crafts\<close>

definition checksum_message :: "installer_env \<Rightarrow> string \<Rightarrow> lock_entry \<Rightarrow> string" where
  "checksum_message env name entry =
     ''Checksum verification failed for '' @ name @ ''@'' @ le_version entry @ ''. '' @
     ''Expected: '' @ formatChecksum env (show_opt (le_integrity entry)) @ ''... '' @
     ''This may indicate a corrupted download or a security issue. '' @
     ''Try running 'craftdesk install --no-lockfile' to re-resolve dependencies.''"

text \<open>The block \<^verbatim>\<open>if (entry.integrity) { ... } else { logger.warn(...) }\<close> of \<open>installCraft\<close>.\<close>

definition verify_integrity :: "installer_env \<Rightarrow> path \<Rightarrow> string \<Rightarrow> lock_entry \<Rightarrow> unit io" where
  "verify_integrity env archivePath name entry =
     (if truthy (le_integrity entry) then
        io_then (logger (Debug (''Verifying checksum for '' @ name @ ''...'')))
       (io_bind (verify_archive env archivePath (show_opt (le_integrity entry))) (\<lambda>isValid.
          if \<not> isValid then
            io_then (fs_remove archivePath)
                    (io_throw (ChecksumError (checksum_message env name entry)))
          else logger (Debug (''Checksum verified: '' @
                              formatChecksum env (show_opt (le_integrity entry)) @ ''...''))))
      else logger (Warn (''No checksum available for '' @ name @ ''@'' @ le_version entry @
                         '' - skipping verification'')))"

text \<open>The \<open>else\<close> branch of \<open>installCraft\<close>: download, verify, extract, clean up.\<close>

definition install_from_registry :: "installer_env \<Rightarrow> path \<Rightarrow> string \<Rightarrow> lock_entry \<Rightarrow> unit io" where
  "install_from_registry env craftDir name entry =
     (let archivePath = path_join craftDir ''archive.zip''
      in io_then (downloadFile env (le_resolved entry) archivePath)
        (io_then (verify_integrity env archivePath name entry)
        (io_then (extractArchive env archivePath craftDir)
                 (fs_remove archivePath))))"

text \<open>The end of \<open>installCraft\<close>: the metadata file, then the registration of a plugin.\<close>

definition finish_install :: "installer_env \<Rightarrow> path \<Rightarrow> string \<Rightarrow> lock_entry \<Rightarrow> unit io" where
  "finish_install env craftDir name entry =
     io_then (createMetadata env craftDir name entry)
       (if le_type entry = ''plugin'' then registerPlugin env name entry craftDir
        else io_return ())"

definition installCraft :: "installer_env \<Rightarrow> string \<Rightarrow> lock_entry \<Rightarrow> unit io" where
  "installCraft env name entry =
     (let craftDir = craftDir_of env (le_type entry) name
      in io_then (fs_ensureDir craftDir)
        (io_then
          (if truthy (le_git entry) then installFromGit env craftDir entry
           else install_from_registry env craftDir name entry)
          (finish_install env craftDir name entry)))"

fun install_loop :: "installer_env \<Rightarrow> (string \<times> lock_entry) list \<Rightarrow> nat \<Rightarrow> nat \<Rightarrow> nat io" where
  "install_loop env [] installed ntotal = io_return installed"
| "install_loop env ((name, entry) # rest) installed ntotal =
     io_then
       (io_catch
          (io_then (logger (UpdateSpinner (''Installing '' @ name @ ''@'' @ le_version entry @ '' ('' @
                      show_nat (installed + 1) @ ''/'' @ show_nat ntotal @ '')'')))
                   (installCraft env name entry))
          (\<lambda>e. io_then (logger (FailSpinner (''Failed to install '' @ name @ '': '' @ message e)))
                        (io_throw e)))
       (install_loop env rest (installed + 1) ntotal)"

definition installFromLockfile :: "installer_env \<Rightarrow> craftdesk_lock \<Rightarrow> unit io" where
  "installFromLockfile env lockfile =
     io_then (fs_ensureDir (installDir env))
       (io_bind (install_loop env (cl_crafts lockfile) 0 (length (cl_crafts lockfile))) (\<lambda>installed.
          logger (SucceedSpinner (''Installed '' @ show_nat installed @ '' crafts''))))"

definition removeCraft :: "installer_env \<Rightarrow> string \<Rightarrow> string \<Rightarrow> unit io" where
  "removeCraft env name t =
     (let craftDir = craftDir_of env t name
      in io_bind (fs_pathExists craftDir) (\<lambda>ex.
           if ex then
             io_then
               (if t = ''plugin'' then
                  io_catch
                    (io_then (sm_unregisterPlugin (sm_env env) name)
                             (logger (Debug (''Unregistered plugin '' @ name @ '' from settings''))))
                    (\<lambda>e. logger (Warn (''Failed to unregister plugin: '' @ message e)))
                else io_return ())
               (io_then (fs_remove craftDir) (logger (Success (''Removed '' @ name))))
           else logger (Warn (name @ '' is not installed''))))"

record installed_craft =
  ic_name :: string
  ic_version :: "string option"
  ic_type :: "string option"

fun io_collect :: "'a list \<Rightarrow> ('a \<Rightarrow> 'b list io) \<Rightarrow> 'b list io" where
  "io_collect [] f = io_return []"
| "io_collect (x # xs) f =
     io_bind (f x) (\<lambda>ys. io_bind (io_collect xs f) (\<lambda>zs. io_return (ys @ zs)))"

text \<open>
  \<open>fs.readJson\<close> of a metadata file: bytes that are not JSON throw; a document of
  another shape has neither \<open>version\<close> nor \<open>type\<close>.
\<close>

definition fs_readJson_metadata :: "path \<Rightarrow> (string option \<times> string option) io" where
  "fs_readJson_metadata p =
     io_bind (fs_readFile p) (\<lambda>content.
       case content of
         Raw _ \<Rightarrow> io_throw (External ''Unexpected token in JSON'')
       | MetadataJson m \<Rightarrow> io_return (Some (md_version m), Some (md_type m))
       | _ \<Rightarrow> io_return (None, None))"

definition typeDirs :: "string list" where
  "typeDirs = [''skills'', ''agents'', ''commands'', ''hooks'', ''plugins'']"

text \<open>
  A name that \<open>fs.readdir\<close> returns is one segment of a path, so joining it to
  its directory appends it; the same holds in the copy loop of \<open>installFromGit\<close>.
\<close>

definition list_craft :: "path \<Rightarrow> string \<Rightarrow> installed_craft list io" where
  "list_craft dir craftName =
     (let metadataPath = path_join (dir @ [craftName]) ''.craftdesk-metadata.json''
      in io_bind (fs_pathExists metadataPath) (\<lambda>ex.
           if ex then
             io_bind (fs_readJson_metadata metadataPath) (\<lambda>(v, t).
               io_return [\<lparr>ic_name = craftName, ic_version = v, ic_type = t\<rparr>])
           else io_return []))"

definition list_typeDir :: "installer_env \<Rightarrow> string \<Rightarrow> installed_craft list io" where
  "list_typeDir env typeDir =
     (let dir = path_join (installDir env) typeDir
      in io_bind (fs_pathExists dir) (\<lambda>ex.
           if \<not> ex then io_return []
           else io_bind (fs_readdir dir) (\<lambda>crafts. io_collect crafts (list_craft dir))))"

definition listInstalled :: "installer_env \<Rightarrow> installed_craft list io" where
  "listInstalled env =
     io_bind (fs_pathExists (installDir env)) (\<lambda>ex.
       if \<not> ex then io_return []
       else io_collect typeDirs (list_typeDir env))"

section \<open>The remove command (src/commands/remove.ts) and its file helpers\<close>

text \<open>
  \<open>readCraftDeskJson\<close> and \<open>readCraftDeskLock\<close> of \<open>utils/file-system.ts\<close>
  return \<open>null\<close> on every failure; the writers let the error through.
\<close>

definition readCraftDeskJson :: "path \<Rightarrow> craftdesk_json option io" where
  "readCraftDeskJson dir =
     io_catch
       (io_bind (fs_readFile (path_join dir ''craftdesk.json'')) (\<lambda>content.
          case content of
            CraftDeskJson j \<Rightarrow> io_return (Some j)
          | _ \<Rightarrow> io_throw (External ''Unexpected token in JSON'')))
       (\<lambda>_. io_return None)"

definition writeCraftDeskJson :: "craftdesk_json \<Rightarrow> path \<Rightarrow> unit io" where
  "writeCraftDeskJson d dir = fs_writeFile (path_join dir ''craftdesk.json'') (CraftDeskJson d)"

definition readCraftDeskLock :: "path \<Rightarrow> craftdesk_lock option io" where
  "readCraftDeskLock dir =
     io_catch
       (io_bind (fs_readFile (path_join dir ''craftdesk.lock'')) (\<lambda>content.
          case content of
            LockJson l \<Rightarrow> io_return (Some l)
          | _ \<Rightarrow> io_throw (External ''Unexpected token in JSON'')))
       (\<lambda>_. io_return None)"

definition writeCraftDeskLock :: "craftdesk_lock \<Rightarrow> path \<Rightarrow> unit io" where
  "writeCraftDeskLock d dir = fs_writeFile (path_join dir ''craftdesk.lock'') (LockJson d)"

text \<open>
  \<open>process.exit(1)\<close> ends the command at once, also inside \<open>try\<close>; the command
  yields how it ended.
\<close>

datatype outcome = Exited nat | Returned

definition depends_on :: "string \<Rightarrow> plugin_tree_node \<Rightarrow> bool" where
  "depends_on craftName pluginInfo =
     (case pt_dependencies pluginInfo of None \<Rightarrow> False | Some ds \<Rightarrow> craftName \<in> set ds)"

definition dependents_of :: "(string \<times> plugin_tree_node) list \<Rightarrow> string \<Rightarrow> string list" where
  "dependents_of tree craftName =
     map (\<lambda>(pluginName, pluginInfo). pluginName @ ''@'' @ pt_version pluginInfo)
         (filter (\<lambda>(pluginName, pluginInfo). depends_on craftName pluginInfo) tree)"

definition dep_truthy :: "dep_value \<Rightarrow> bool" where
  "dep_truthy v = (case v of DepString s \<Rightarrow> s \<noteq> [] | DepObject _ \<Rightarrow> True)"

definition in_field :: "(string \<times> dep_value) list option \<Rightarrow> string \<Rightarrow> bool" where
  "in_field field craftName =
     (case field of None \<Rightarrow> False
      | Some ds \<Rightarrow> (case map_of ds craftName of None \<Rightarrow> False | Some v \<Rightarrow> dep_truthy v))"

definition delete_from_field ::
    "(string \<times> dep_value) list option \<Rightarrow> string \<Rightarrow> (string \<times> dep_value) list option" where
  "delete_from_field field craftName =
     (case field of None \<Rightarrow> None
      | Some ds \<Rightarrow> (if AList.delete craftName ds = [] then None
                   else Some (AList.delete craftName ds)))"

text \<open>The loop over the four dependency fields, up to its \<open>break\<close>.\<close>

definition remove_from_fields :: "craftdesk_json \<Rightarrow> string \<Rightarrow> string option \<times> craftdesk_json" where
  "remove_from_fields cdj craftName =
     (if in_field (cj_dependencies cdj) craftName
      then (Some ''dependencies'',
            cdj\<lparr>cj_dependencies := delete_from_field (cj_dependencies cdj) craftName\<rparr>)
      else if in_field (cj_devDependencies cdj) craftName
      then (Some ''devDependencies'',
            cdj\<lparr>cj_devDependencies := delete_from_field (cj_devDependencies cdj) craftName\<rparr>)
      else if in_field (cj_optionalDependencies cdj) craftName
      then (Some ''optionalDependencies'',
            cdj\<lparr>cj_optionalDependencies := delete_from_field (cj_optionalDependencies cdj) craftName\<rparr>)
      else if in_field (cj_peerDependencies cdj) craftName
      then (Some ''peerDependencies'',
            cdj\<lparr>cj_peerDependencies := delete_from_field (cj_peerDependencies cdj) craftName\<rparr>)
      else (None, cdj))"

definition prune_node :: "string \<Rightarrow> plugin_tree_node \<Rightarrow> plugin_tree_node" where
  "prune_node craftName pluginInfo =
     pluginInfo\<lparr>pt_requiredBy := map_option (filter (\<lambda>dep. dep \<noteq> craftName)) (pt_requiredBy pluginInfo),
                pt_dependencies := map_option (filter (\<lambda>dep. dep \<noteq> craftName)) (pt_dependencies pluginInfo)\<rparr>"

definition update_lock :: "craftdesk_lock \<Rightarrow> string \<Rightarrow> craftdesk_lock" where
  "update_lock lockfile craftName =
     lockfile\<lparr>cl_crafts := AList.delete craftName (cl_crafts lockfile),
              cl_pluginTree :=
                map_option (\<lambda>tree. map (\<lambda>(pluginName, pluginInfo). (pluginName, prune_node craftName pluginInfo))
                                       (AList.delete craftName tree))
                           (cl_pluginTree lockfile)\<rparr>"

definition blocking_dependents :: "craftdesk_lock option \<Rightarrow> bool \<Rightarrow> string \<Rightarrow> string list" where
  "blocking_dependents lockfile force craftName =
     (case lockfile of
        None \<Rightarrow> []
      | Some l \<Rightarrow>
         (case cl_pluginTree l of
            None \<Rightarrow> []
          | Some tree \<Rightarrow> (if \<not> force then dependents_of tree craftName else [])))"

definition remove_installed :: "installer_env \<Rightarrow> craftdesk_lock option \<Rightarrow> string \<Rightarrow> unit io" where
  "remove_installed env lockfile craftName =
     (case (case lockfile of None \<Rightarrow> None
            | Some l \<Rightarrow> map_option (\<lambda>craftEntry. (l, craftEntry)) (map_of (cl_crafts l) craftName)) of
        Some (l, craftEntry) \<Rightarrow>
          io_then (removeCraft env craftName (le_type craftEntry))
         (io_then (writeCraftDeskLock (update_lock l craftName) (cwd env))
                  (logger (Success ''Updated craftdesk.lock'')))
      | None \<Rightarrow>
          io_foreach [''skill'', ''agent'', ''command'', ''hook'', ''plugin'']
            (\<lambda>t. removeCraft env craftName t))"

definition removeCommand :: "installer_env \<Rightarrow> string \<Rightarrow> bool \<Rightarrow> outcome io" where
  "removeCommand env craftName force =
     io_catch
       (io_bind (readCraftDeskJson (cwd env)) (\<lambda>craftDeskJson.
          case craftDeskJson of
            None \<Rightarrow>
              io_then (logger (LogError ''No craftdesk.json found in current directory''))
                      (io_return (Exited 1))
          | Some cdj \<Rightarrow>
              io_bind (readCraftDeskLock (cwd env)) (\<lambda>lockfile.
                let dependents = blocking_dependents lockfile force craftName
                in if dependents \<noteq> [] then
                     io_then (logger (Warn (''Warning: '' @ craftName @ '' is required by:'')))
                    (io_then (io_foreach dependents (\<lambda>dep. logger (Warn (''  - '' @ dep))))
                    (io_then (logger (Log []))
                    (io_then (logger (Info ''Use --force to remove anyway''))
                             (io_return (Exited 1)))))
                   else
                     (case remove_from_fields cdj craftName of
                        (None, _) \<Rightarrow>
                          io_then (logger (LogError (''Craft '' @ [CHR 0x27] @ craftName @ [CHR 0x27] @
                                                     '' is not in craftdesk.json'')))
                                  (io_return (Exited 1))
                      | (Some foundInField, cdj') \<Rightarrow>
                          io_then (writeCraftDeskJson cdj' (cwd env))
                         (io_then (logger (Success (''Removed '' @ craftName @ '' from '' @ foundInField)))
                         (io_then (remove_installed env lockfile craftName)
                         (io_then (logger (Success ''Craft removed successfully!''))
                                  (io_return Returned))))))))
       (\<lambda>e. io_then (logger (LogError (''Failed to remove craft: '' @ message e)))
                     (io_return (Exited 1)))"

section \<open>Notions used to state the properties\<close>

text \<open>A path segment that \<open>path.join\<close> appends as it is.\<close>

text \<open>Where \<open>installCraft\<close> puts the downloaded archive.\<close>

definition archivePath_of :: "installer_env \<Rightarrow> string \<Rightarrow> lock_entry \<Rightarrow> path" where
  "archivePath_of env name entry = path_join (craftDir_of env (le_type entry) name) ''archive.zip''"

definition plain :: "string \<Rightarrow> bool" where
  "plain s = (CHR ''/'' \<notin> set s \<and> s \<noteq> [] \<and> s \<noteq> ''.'' \<and> s \<noteq> ''..'')"

text \<open>The content of the file at a path, when there is a file.\<close>

definition file_at :: "disk \<Rightarrow> path \<Rightarrow> file_data option" where
  "file_at fs p = (case map_of fs p of Some (File d) \<Rightarrow> Some d | _ \<Rightarrow> None)"

text \<open>An effect keeps an invariant of the world, on its normal and its error exit.\<close>

definition preserves :: "(world \<Rightarrow> bool) \<Rightarrow> 'a io \<Rightarrow> bool" where
  "preserves I m = (\<forall>w. I w \<longrightarrow> I (snd (m w)))"

definition files_indep :: "(world \<Rightarrow> bool) \<Rightarrow> bool" where
  "files_indep I = (\<forall>w f. I (w\<lparr>files := f\<rparr>) = I w)"

definition settings_indep :: "(world \<Rightarrow> bool) \<Rightarrow> bool" where
  "settings_indep I = (\<forall>w s. I (w\<lparr>settings := s\<rparr>) = I w)"

definition logs_closed :: "(world \<Rightarrow> bool) \<Rightarrow> bool" where
  "logs_closed I = (\<forall>w l. I w \<longrightarrow> I (w\<lparr>logs := logs w @ [l]\<rparr>))"

definition no_checksum_warning :: "string \<Rightarrow> lock_entry \<Rightarrow> log_entry" where
  "no_checksum_warning name entry =
     Warn (''No checksum available for '' @ name @ ''@'' @ le_version entry @
           '' - skipping verification'')"

definition extracted_note :: "installer_env \<Rightarrow> string \<Rightarrow> lock_entry \<Rightarrow> log_entry" where
  "extracted_note env name entry =
     Debug (''Extracted ZIP archive to '' @ show_path (craftDir_of env (le_type entry) name))"

text \<open>An effect that returns on every world.\<close>

definition never_throws :: "'a io \<Rightarrow> bool" where
  "never_throws m = (\<forall>w. \<exists>x. fst (m w) = Inr x)"

text \<open>
  \<open>installCraft\<close> up to and including the metadata record: all of it but the
  registration of a plugin.
\<close>

definition install_files :: "installer_env \<Rightarrow> string \<Rightarrow> lock_entry \<Rightarrow> unit io" where
  "install_files env name entry =
     (let craftDir = craftDir_of env (le_type entry) name
      in io_then (fs_ensureDir craftDir)
        (io_then
          (if truthy (le_git entry) then installFromGit env craftDir entry
           else install_from_registry env craftDir name entry)
          (createMetadata env craftDir name entry)))"

definition metadata_of :: "installer_env \<Rightarrow> string \<Rightarrow> lock_entry \<Rightarrow> craft_metadata" where
  "metadata_of env name entry =
     \<lparr>md_name = name, md_version = le_version entry, md_type = le_type entry,
      md_author = le_author entry, md_installedAt = now env, md_registry = le_registry entry,
      md_dependencies = le_dependencies entry\<rparr>"

definition registration_warning :: "string \<Rightarrow> string \<Rightarrow> log_entry" where
  "registration_warning name m = Warn (''Failed to register plugin '' @ name @ '': '' @ m)"

text \<open>The list a manifest declares for one component type, if it declares one.\<close>

definition declared ::
    "plugin_manifest option \<Rightarrow> (components_rec \<Rightarrow> string list option) \<Rightarrow> string list option" where
  "declared manifest f =
     (case manifest of None \<Rightarrow> None
      | Some m \<Rightarrow> (case pm_components m of None \<Rightarrow> None | Some c \<Rightarrow> f c))"

text \<open>The component lists of a registered plugin; a configuration without any has none.\<close>

definition registered_components :: "plugin_config \<Rightarrow> components_rec" where
  "registered_components cfg =
     (case pc_components cfg of
        None \<Rightarrow> \<lparr>skills = None, agents = None, commands = None, hooks = None\<rparr>
      | Some c \<Rightarrow> c)"

text \<open>
  A settings file from which a registration can start: it is corrupt or absent (and
  read as the default), or it holds a document with a plugin map.
\<close>

definition settings_usable :: "settings_file \<Rightarrow> bool" where
  "settings_usable f = (case f of Text (Json s) \<Rightarrow> cs_plugins s \<noteq> None | _ \<Rightarrow> True)"

definition plugins_are :: "(string \<times> plugin_config) list \<Rightarrow> world \<Rightarrow> bool" where
  "plugins_are ps w = (\<exists>s. settings w = Text (Json s) \<and> cs_plugins s = Some ps)"

text \<open>The part of the disk that does not lie at or below a directory.\<close>

definition outside :: "path \<Rightarrow> disk \<Rightarrow> disk" where
  "outside d fs = filter (\<lambda>(q, _). \<not> prefix d q) fs"

text \<open>
  An effect whose result is determined by the part of the disk outside a
  directory, and which changes that part in a way determined by it.
\<close>

definition reads_outside :: "path \<Rightarrow> 'a io \<Rightarrow> bool" where
  "reads_outside d m =
     (\<forall>w w'. outside d (files w) = outside d (files w') \<longrightarrow>
        fst (m w) = fst (m w') \<and>
        outside d (files (snd (m w))) = outside d (files (snd (m w'))))"

definition known_kind :: "string \<Rightarrow> bool" where
  "known_kind t = (t = ''skill'' \<or> t = ''agent'' \<or> t = ''command'' \<or> t = ''hook'' \<or> t = ''plugin'')"

text \<open>The part of the disk outside a directory is a given one.\<close>

definition frame :: "path \<Rightarrow> disk \<Rightarrow> world \<Rightarrow> bool" where
  "frame d F w = (outside d (files w) = F)"

text \<open>
  The segments of a craft name that \<open>path.join\<close> keeps, and the names it keeps
  below the directory they are joined to: no \<open>..\<close> segment, and at least one
  segment that is kept. A plain name and a scoped name such as \<open>author/craft\<close> are
  of this kind.
\<close>

definition real_segments :: "string \<Rightarrow> string list" where
  "real_segments name = filter (\<lambda>s. s \<noteq> [] \<and> s \<noteq> ''.'') (segments name)"

definition safe_name :: "string \<Rightarrow> bool" where
  "safe_name name = (''..'' \<notin> set (segments name) \<and> real_segments name \<noteq> [])"

text \<open>The progress messages of \<open>installFromLockfile\<close>, and a world with one more log line.\<close>

definition installing_note :: "string \<Rightarrow> lock_entry \<Rightarrow> nat \<Rightarrow> nat \<Rightarrow> log_entry" where
  "installing_note name entry installed ntotal =
     UpdateSpinner (''Installing '' @ name @ ''@'' @ le_version entry @ '' ('' @
                    show_nat (installed + 1) @ ''/'' @ show_nat ntotal @ '')'')"

definition failed_note :: "string \<Rightarrow> error \<Rightarrow> log_entry" where
  "failed_note name e = FailSpinner (''Failed to install '' @ name @ '': '' @ message e)"

definition with_log :: "log_entry \<Rightarrow> world \<Rightarrow> world" where
  "with_log l w = w\<lparr>logs := logs w @ [l]\<rparr>"

text \<open>The two project files of the remove command, and the line that names a dependent.\<close>

definition json_path :: "installer_env \<Rightarrow> path" where
  "json_path env = path_join (cwd env) ''craftdesk.json''"

definition lock_path :: "installer_env \<Rightarrow> path" where
  "lock_path env = path_join (cwd env) ''craftdesk.lock''"

definition dependent_line :: "string \<Rightarrow> plugin_tree_node \<Rightarrow> log_entry" where
  "dependent_line pluginName pluginInfo = Warn (''  - '' @ pluginName @ ''@'' @ pt_version pluginInfo)"

text \<open>A plugin tree node that mentions a craft, as a dependency or as a dependent.\<close>

definition mentions :: "string \<Rightarrow> plugin_tree_node \<Rightarrow> bool" where
  "mentions craftName pluginInfo =
     (depends_on craftName pluginInfo \<or>
      (case pt_requiredBy pluginInfo of None \<Rightarrow> False | Some rs \<Rightarrow> craftName \<in> set rs))"

section \<open>Example inputs\<close>

definition example_settings_env :: settings_env where
  "example_settings_env =
     \<lparr>sm_installDir = ''.claude'', sm_now = ''2025-01-01T00:00:00.000Z'', sm_write_error = None\<rparr>"

definition example_plugin_config :: plugin_config where
  "example_plugin_config =
     \<lparr>pc_name = ''p'', pc_version = ''1.0.0'', pc_type = ''plugin'', pc_enabled = True,
      pc_installPath = [''plugins'', ''p''], pc_installedAt = ''2025-01-01T00:00:00.000Z'',
      pc_dependencies = [], pc_isDependency = False, pc_description = None, pc_author = None,
      pc_license = None, pc_homepage = None, pc_repository = None, pc_keywords = None,
      pc_components = None, pc_scripts = None\<rparr>"

definition example_mcp :: mcp_server_config where
  "example_mcp = \<lparr>mcp_type = ''stdio'', mcp_command = Some ''srv'', mcp_url = None\<rparr>"

definition corrupt_world :: world where
  "corrupt_world = \<lparr>files = [], settings = Text (Garbage ''Unexpected token''), logs = []\<rparr>"

text \<open>
  A project in \<open>/home/project\<close> with the default install path. The registry serves
  the two-byte archive \<open>PK\<close>, which decodes to one file; any other archive is
  corrupt. A checksum is the text \<open>sha256-\<close> followed by the bytes. The one git
  repository holds a file \<open>agent.md\<close> and a directory \<open>sub\<close>.
\<close>

definition example_env :: installer_env where
  "example_env =
     \<lparr>cwd = [''home'', ''project''],
      installPath = ''.claude'',
      now = ''2025-01-01T00:00:00.000Z'',
      sm_env = example_settings_env,
      http_get = (\<lambda>url. if url = Some ''https://registry/ok.zip'' then Inr ''PK''
                        else if url = Some ''https://registry/bad.zip'' then Inr ''XX''
                        else Inl (External ''Network error'')),
      verifyFileChecksum = (\<lambda>bytes expected. expected = ''sha256-'' @ bytes),
      formatChecksum = take 12,
      unzip = (\<lambda>bytes. if bytes = ''PK'' then Inr [([''SKILL.md''], File (Raw ''# skill''))]
                        else Inl (External ''Invalid or unsupported zip format'')),
      git_clone_cmd = (\<lambda>url ref. if url = ''https://git/repo.git''
                        then Inr \<lparr>gc_tree = [([''agent.md''], File (Raw ''# agent'')),
                                              ([''sub'', ''SKILL.md''], File (Raw ''# sub''))],
                                   gc_shallow = True\<rparr>
                        else Inl (External ''fatal: repository not found'')),
      git_fetch_unshallow = (\<lambda>url. None),
      git_checkout_cmd = (\<lambda>url commit. Inl (External ''fatal: reference is not a tree''))\<rparr>"

definition empty_world :: world where
  "empty_world = \<lparr>files = [], settings = Absent, logs = []\<rparr>"

definition registry_entry :: "string \<Rightarrow> string option \<Rightarrow> string \<Rightarrow> lock_entry" where
  "registry_entry url integ t =
     \<lparr>le_version = ''1.0.0'', le_resolved = Some url, le_git = None, le_branch = None,
      le_tag = None, le_commit = None, le_path = None, le_file = None, le_integrity = integ,
      le_type = t, le_author = Some ''author'', le_registry = None, le_dependencies = Some [],
      le_installedAs = None\<rparr>"

definition git_entry :: "string option \<Rightarrow> string option \<Rightarrow> string \<Rightarrow> lock_entry" where
  "git_entry p f t =
     \<lparr>le_version = ''main'', le_resolved = None, le_git = Some ''https://git/repo.git'',
      le_branch = Some ''main'', le_tag = None, le_commit = None, le_path = p, le_file = f,
      le_integrity = None, le_type = t, le_author = Some ''git'', le_registry = None,
      le_dependencies = Some [], le_installedAs = None\<rparr>"

text \<open>The same project with a settings store that cannot be written.\<close>

definition readonly_env :: installer_env where
  "readonly_env =
     example_env\<lparr>sm_env := example_settings_env
        \<lparr>sm_write_error := Some (External ''EACCES: permission denied'')\<rparr>\<rparr>"

text \<open>What the install of the example plugin leaves before the registration.\<close>

definition plugin_files_world :: world where
  "plugin_files_world =
     \<lparr>files =
        [([''home'', ''project'', ''.claude'', ''plugins'', ''my-plugin''], Directory),
         ([''home'', ''project'', ''.claude'', ''plugins'', ''my-plugin'', ''SKILL.md''],
          File (Raw ''# skill'')),
         ([''home'', ''project'', ''.claude'', ''plugins'', ''my-plugin'', ''.craftdesk-metadata.json''],
          File (MetadataJson
            \<lparr>md_name = ''my-plugin'', md_version = ''1.0.0'', md_type = ''plugin'',
             md_author = Some ''author'', md_installedAt = ''2025-01-01T00:00:00.000Z'',
             md_registry = None, md_dependencies = Some []\<rparr>))],
      settings = Absent,
      logs = [Warn ''No checksum available for my-plugin@1.0.0 - skipping verification'',
              Debug ''Extracted ZIP archive to /home/project/.claude/plugins/my-plugin'']\<rparr>"

text \<open>
  An installed plugin whose manifest declares the skill \<open>a\<close> and whose directory
  holds an agent directory \<open>b\<close> the manifest does not mention.
\<close>

definition declaring_manifest :: plugin_manifest where
  "declaring_manifest =
     \<lparr>pm_description = None, pm_author = None, pm_license = None, pm_homepage = None,
      pm_repository = None, pm_keywords = None,
      pm_components = Some \<lparr>skills = Some [''a''], agents = None, commands = None, hooks = None\<rparr>,
      pm_scripts = None, pm_mcpServers = None\<rparr>"

definition plugin_dir :: path where
  "plugin_dir = [''home'', ''project'', ''.claude'', ''plugins'', ''my-plugin'']"

definition plugin_on_disk :: world where
  "plugin_on_disk =
     \<lparr>files =
        [(plugin_dir, Directory),
         (plugin_dir @ [''.claude-plugin'', ''plugin.json''], File (ManifestJson declaring_manifest)),
         (plugin_dir @ [''agents'', ''b'', ''AGENT.md''], File (Raw ''# agent b''))],
      settings = Absent,
      logs = []\<rparr>"

text \<open>A lockfile of three crafts; the archive of the second one is corrupt.\<close>

definition three_crafts :: craftdesk_lock where
  "three_crafts =
     \<lparr>cl_version = ''1.0.0'', cl_lockfileVersion = 1,
      cl_crafts = [(''first'', registry_entry ''https://registry/ok.zip'' None ''skill''),
                   (''second'', registry_entry ''https://registry/bad.zip'' None ''skill''),
                   (''third'', registry_entry ''https://registry/ok.zip'' None ''skill'')],
      cl_pluginTree = None\<rparr>"

text \<open>The worlds this lockfile goes through, up to the failure of the second craft.\<close>

definition first_metadata :: craft_metadata where
  "first_metadata =
     \<lparr>md_name = ''first'', md_version = ''1.0.0'', md_type = ''skill'',
      md_author = Some ''author'', md_installedAt = ''2025-01-01T00:00:00.000Z'',
      md_registry = None, md_dependencies = Some []\<rparr>"

definition project_world :: world where
  "project_world =
     \<lparr>files = [([''home'', ''project'', ''.claude''], Directory)], settings = Absent, logs = []\<rparr>"

definition first_installed :: world where
  "first_installed =
     \<lparr>files =
        [([''home'', ''project'', ''.claude''], Directory),
         ([''home'', ''project'', ''.claude'', ''skills'', ''first''], Directory),
         ([''home'', ''project'', ''.claude'', ''skills'', ''first'', ''SKILL.md''],
          File (Raw ''# skill'')),
         ([''home'', ''project'', ''.claude'', ''skills'', ''first'', ''.craftdesk-metadata.json''],
          File (MetadataJson first_metadata))],
      settings = Absent,
      logs = [UpdateSpinner ''Installing first@1.0.0 (1/3)'',
              Warn ''No checksum available for first@1.0.0 - skipping verification'',
              Debug ''Extracted ZIP archive to /home/project/.claude/skills/first'']\<rparr>"

definition second_failed :: world where
  "second_failed =
     \<lparr>files =
        [([''home'', ''project'', ''.claude''], Directory),
         ([''home'', ''project'', ''.claude'', ''skills'', ''first''], Directory),
         ([''home'', ''project'', ''.claude'', ''skills'', ''first'', ''SKILL.md''],
          File (Raw ''# skill'')),
         ([''home'', ''project'', ''.claude'', ''skills'', ''first'', ''.craftdesk-metadata.json''],
          File (MetadataJson first_metadata)),
         ([''home'', ''project'', ''.claude'', ''skills'', ''second''], Directory),
         ([''home'', ''project'', ''.claude'', ''skills'', ''second'', ''archive.zip''],
          File (Raw ''XX''))],
      settings = Absent,
      logs = [UpdateSpinner ''Installing first@1.0.0 (1/3)'',
              Warn ''No checksum available for first@1.0.0 - skipping verification'',
              Debug ''Extracted ZIP archive to /home/project/.claude/skills/first'',
              UpdateSpinner ''Installing second@1.0.0 (2/3)'',
              Warn ''No checksum available for second@1.0.0 - skipping verification'']\<rparr>"

text \<open>
  A project with the plugin \<open>a\<close> and the skill \<open>b\<close> it depends on. In the first
  world both are dependencies of \<open>craftdesk.json\<close>; in the second only \<open>a\<close> is, and
  \<open>b\<close> is in the lockfile as a dependency of \<open>a\<close>.
\<close>

definition node_a :: plugin_tree_node where
  "node_a = \<lparr>pt_version = ''1.0.0'', pt_dependencies = Some [''b''], pt_requiredBy = Some [],
             pt_isDependency = False\<rparr>"

definition node_b :: plugin_tree_node where
  "node_b = \<lparr>pt_version = ''2.0.0'', pt_dependencies = Some [], pt_requiredBy = Some [''a''],
             pt_isDependency = True\<rparr>"

definition lock_ab :: craftdesk_lock where
  "lock_ab =
     \<lparr>cl_version = ''1.0.0'', cl_lockfileVersion = 1,
      cl_crafts = [(''a'', registry_entry ''https://registry/ok.zip'' None ''plugin''),
                   (''b'', registry_entry ''https://registry/ok.zip'' None ''skill'')],
      cl_pluginTree = Some [(''a'', node_a), (''b'', node_b)]\<rparr>"

definition json_ab :: craftdesk_json where
  "json_ab =
     \<lparr>cj_name = ''project'', cj_version = ''0.1.0'',
      cj_dependencies = Some [(''a'', DepString ''^1.0.0''), (''b'', DepString ''^2.0.0'')],
      cj_devDependencies = None, cj_optionalDependencies = None, cj_peerDependencies = None\<rparr>"

definition json_a :: craftdesk_json where
  "json_a =
     \<lparr>cj_name = ''project'', cj_version = ''0.1.0'',
      cj_dependencies = Some [(''a'', DepString ''^1.0.0'')],
      cj_devDependencies = None, cj_optionalDependencies = None, cj_peerDependencies = None\<rparr>"

definition project_with :: "craftdesk_json \<Rightarrow> world" where
  "project_with j =
     \<lparr>files =
        [([''home'', ''project'', ''craftdesk.json''], File (CraftDeskJson j)),
         ([''home'', ''project'', ''craftdesk.lock''], File (LockJson lock_ab)),
         ([''home'', ''project'', ''.claude'', ''skills'', ''b'', ''SKILL.md''], File (Raw ''# b''))],
      settings = Absent,
      logs = []\<rparr>"

section \<open>Properties of the effect combinators\<close>

lemmas io_defs =
  io_catch_def io_bind_def io_then_def io_return_def io_throw_def io_finally_def logger_def

section \<open>Properties of paths\<close>

lemma split_on_no_sep: "c \<notin> set s \<Longrightarrow> split_on c acc s = [rev acc @ s]"
  by (induction s arbitrary: acc) auto

lemma path_join_plain: "plain s \<Longrightarrow> path_join p s = p @ [s]"
  by (simp add: path_join_def segments_def split_on_no_sep plain_def)

lemma path_join_literals [simp]:
  "path_join p ''archive.zip'' = p @ [''archive.zip'']"
  "path_join p ''.tmp-git'' = p @ [''.tmp-git'']"
  "path_join p ''.git'' = p @ [''.git'']"
  "path_join p ''shallow'' = p @ [''shallow'']"
  "path_join p ''.craftdesk-metadata.json'' = p @ [''.craftdesk-metadata.json'']"
  "path_join p ''.claude-plugin'' = p @ [''.claude-plugin'']"
  "path_join p ''plugin.json'' = p @ [''plugin.json'']"
  "path_join p ''skills'' = p @ [''skills'']"
  "path_join p ''agents'' = p @ [''agents'']"
  "path_join p ''commands'' = p @ [''commands'']"
  "path_join p ''hooks'' = p @ [''hooks'']"
  "path_join p ''plugins'' = p @ [''plugins'']"
  "path_join p ''crafts'' = p @ [''crafts'']"
  "path_join p ''craftdesk.json'' = p @ [''craftdesk.json'']"
  "path_join p ''craftdesk.lock'' = p @ [''craftdesk.lock'']"
  by (simp_all add: path_join_plain plain_def)

section \<open>Invariants of effects\<close>

named_theorems pres

lemma preserves_return [pres]: "preserves I (io_return x)"
  by (simp add: preserves_def io_return_def)

lemma preserves_throw [pres]: "preserves I (io_throw e)"
  by (simp add: preserves_def io_throw_def)

lemma preserves_bind [pres]:
  "preserves I m \<Longrightarrow> (\<And>x. preserves I (f x)) \<Longrightarrow> preserves I (io_bind m f)"
  unfolding preserves_def io_bind_def
  by (auto split: prod.splits sum.splits)

lemma preserves_then [pres]:
  "preserves I m \<Longrightarrow> preserves I k \<Longrightarrow> preserves I (io_then m k)"
  by (simp add: io_then_def preserves_bind)

lemma preserves_catch [pres]:
  "preserves I m \<Longrightarrow> (\<And>e. preserves I (h e)) \<Longrightarrow> preserves I (io_catch m h)"
  unfolding preserves_def io_catch_def
  by (auto split: prod.splits sum.splits)

lemma preserves_finally [pres]:
  "preserves I m \<Longrightarrow> preserves I c \<Longrightarrow> preserves I (io_finally m c)"
  unfolding preserves_def io_finally_def
  by (auto split: prod.splits sum.splits)

lemma preserves_foreach [pres]:
  "(\<And>x. preserves I (f x)) \<Longrightarrow> preserves I (io_foreach xs f)"
  by (induction xs) (auto intro: pres)

lemma preserves_collect [pres]:
  "(\<And>x. preserves I (f x)) \<Longrightarrow> preserves I (io_collect xs f)"
  by (induction xs) (auto intro!: pres)

lemma preserves_logger [pres]: "logs_closed I \<Longrightarrow> preserves I (logger l)"
  by (simp add: preserves_def logger_def logs_closed_def)

lemma preserves_if [pres]:
  "(b \<Longrightarrow> preserves I m) \<Longrightarrow> (\<not> b \<Longrightarrow> preserves I n) \<Longrightarrow> preserves I (if b then m else n)"
  by simp

lemma preserves_let [pres]: "preserves I (f x) \<Longrightarrow> preserves I (Let x f)"
  by simp

lemma preserves_case_prod [pres]:
  "(\<And>a b. preserves I (f a b)) \<Longrightarrow> preserves I (case_prod f p)"
  by (cases p) simp

lemma preserves_case_option [pres]:
  "preserves I a \<Longrightarrow> (\<And>x. preserves I (f x)) \<Longrightarrow> preserves I (case_option a f v)"
  by (cases v) simp_all

lemma preserves_case_sum [pres]:
  "(\<And>x. preserves I (f x)) \<Longrightarrow> (\<And>x. preserves I (g x)) \<Longrightarrow> preserves I (case_sum f g v)"
  by (cases v) simp_all

subsection \<open>Effects that only read\<close>

lemma preserves_fs_pathExists [pres]: "preserves I (fs_pathExists p)"
  by (simp add: preserves_def fs_pathExists_def)

lemma preserves_fs_readFile [pres]: "preserves I (fs_readFile p)"
  by (simp add: preserves_def fs_readFile_def split: option.splits node.splits)

lemma preserves_fs_readdir [pres]: "preserves I (fs_readdir p)"
  by (simp add: preserves_def fs_readdir_def)

lemma preserves_fs_readdir_types [pres]: "preserves I (fs_readdir_types p)"
  by (simp add: preserves_def fs_readdir_types_def fs_readdir_def io_bind_def)

lemma preserves_settings_pathExists [pres]: "preserves I settings_pathExists"
  by (simp add: preserves_def settings_pathExists_def)

lemma preserves_settings_readFile [pres]: "preserves I settings_readFile"
  by (simp add: preserves_def settings_readFile_def split: settings_file.splits)

lemma preserves_JSON_parse [pres]: "preserves I (JSON_parse t)"
  by (simp add: JSON_parse_def pres split: settings_text.splits)

lemma preserves_readSettings [pres]: "logs_closed I \<Longrightarrow> preserves I (readSettings env)"
  unfolding readSettings_def by (intro pres) 

subsection \<open>Effects on the disk\<close>

lemma preserves_fs_ensureDir [pres]: "files_indep I \<Longrightarrow> preserves I (fs_ensureDir p)"
  by (simp add: preserves_def fs_ensureDir_def files_indep_def)

lemma preserves_fs_writeFile [pres]: "files_indep I \<Longrightarrow> preserves I (fs_writeFile p d)"
  by (simp add: preserves_def fs_writeFile_def files_indep_def)

lemma preserves_fs_remove [pres]: "files_indep I \<Longrightarrow> preserves I (fs_remove p)"
  by (simp add: preserves_def fs_remove_def files_indep_def)

lemma preserves_fs_copy [pres]: "files_indep I \<Longrightarrow> preserves I (fs_copy p q)"
  by (simp add: preserves_def fs_copy_def files_indep_def)

subsection \<open>Effects on the settings file\<close>

lemma preserves_settings_writeFile [pres]:
  "settings_indep I \<Longrightarrow> preserves I (settings_writeFile env s)"
  by (simp add: preserves_def settings_writeFile_def settings_indep_def split: option.splits)

lemma preserves_writeSettings [pres]:
  "settings_indep I \<Longrightarrow> logs_closed I \<Longrightarrow> preserves I (writeSettings env s)"
  unfolding writeSettings_def by (intro pres)

lemma preserves_sm_registerPlugin [pres]:
  "settings_indep I \<Longrightarrow> logs_closed I \<Longrightarrow> preserves I (sm_registerPlugin env c)"
  unfolding sm_registerPlugin_def by (intro pres)

lemma preserves_sm_registerMCPServer [pres]:
  "settings_indep I \<Longrightarrow> logs_closed I \<Longrightarrow> preserves I (sm_registerMCPServer env n c)"
  unfolding sm_registerMCPServer_def by (intro pres)

lemma preserves_sm_unregisterPlugin [pres]:
  "settings_indep I \<Longrightarrow> logs_closed I \<Longrightarrow> preserves I (sm_unregisterPlugin env n)"
  unfolding sm_unregisterPlugin_def by (intro pres)

section \<open>Properties of SettingsManager\<close>

lemmas sm_defs =
  readSettings_def settings_pathExists_def settings_readFile_def JSON_parse_def
  writeSettings_def settings_writeFile_def

text \<open>
  Claim C10. \<open>readSettings\<close> never throws. When the settings file is absent,
  unreadable or not valid JSON, it returns the default settings, whose plugin map is
  empty; a registration (\<open>registerPlugin\<close>, \<open>registerMCPServer\<close>) run in such a
  state therefore starts from the default value and, when the write succeeds, leaves a
  settings file that holds exactly the default document plus the new registration: the
  corrupt content is gone.
\<close>

theorem readSettings_total_default:
  "(\<exists>s. fst (readSettings env w) = Inr s) \<and>
   (settings_corrupt (settings w) \<longrightarrow>
      fst (readSettings env w) = Inr (createDefaultSettings env) \<and>
      cs_plugins (createDefaultSettings env) = Some [] \<and>
      (sm_write_error env = None \<longrightarrow>
         fst (sm_registerPlugin env cfg w) = Inr () \<and>
         settings (snd (sm_registerPlugin env cfg w)) =
           Text (Json ((createDefaultSettings env)\<lparr>cs_plugins := Some [(pc_name cfg,
             cfg\<lparr>pc_installedAt :=
               (if pc_installedAt cfg \<noteq> [] then pc_installedAt cfg else sm_now env)\<rparr>)]\<rparr>)) \<and>
         fst (sm_registerMCPServer env sn mc w) = Inr () \<and>
         settings (snd (sm_registerMCPServer env sn mc w)) =
           Text (Json ((createDefaultSettings env)\<lparr>cs_mcpServers := Some [(sn, mc)]\<rparr>))))"
  by (auto simp add: sm_defs io_defs settings_corrupt_def createDefaultSettings_def
      sm_registerPlugin_def sm_registerMCPServer_def
      split: settings_file.splits settings_text.splits)

theorem readSettings_total_default_witness:
  "settings_corrupt (settings corrupt_world) \<and>
   sm_write_error example_settings_env = None \<and>
   fst (readSettings example_settings_env corrupt_world) =
     Inr (createDefaultSettings example_settings_env) \<and>
   fst (sm_registerPlugin example_settings_env example_plugin_config corrupt_world) = Inr () \<and>
   settings (snd (sm_registerPlugin example_settings_env example_plugin_config corrupt_world)) =
     Text (Json ((createDefaultSettings example_settings_env)\<lparr>cs_plugins :=
        Some [(''p'', example_plugin_config)]\<rparr>)) \<and>
   settings (snd (sm_registerMCPServer example_settings_env ''srv'' example_mcp corrupt_world)) =
     Text (Json ((createDefaultSettings example_settings_env)\<lparr>cs_mcpServers :=
        Some [(''srv'', example_mcp)]\<rparr>))"
  using readSettings_total_default
    [of example_settings_env corrupt_world example_plugin_config "''srv''" example_mcp]
  by (simp add: settings_corrupt_def corrupt_world_def example_settings_env_def
      example_plugin_config_def)

section \<open>Properties of the file system\<close>

lemma io_bind_Inr: "m w = (Inr x, w') \<Longrightarrow> io_bind m f w = f x w'"
  by (simp add: io_bind_def)

lemma io_bind_Inl: "m w = (Inl e, w') \<Longrightarrow> io_bind m f w = (Inl e, w')"
  by (simp add: io_bind_def)

lemma io_then_Inr: "m w = (Inr x, w') \<Longrightarrow> io_then m k w = k w'"
  by (simp add: io_then_def io_bind_def)

lemma io_then_Inl: "m w = (Inl e, w') \<Longrightarrow> io_then m k w = (Inl e, w')"
  by (simp add: io_then_def io_bind_def)

lemma preservesD: "preserves I m \<Longrightarrow> I w \<Longrightarrow> I (snd (m w))"
  by (simp add: preserves_def)

lemma pathExists_iff: "pathExists fs p \<longleftrightarrow> (\<exists>q\<in>fst ` set fs. prefix p q)"
  by (force simp: pathExists_def list_ex_iff)

lemma pathExists_append: "pathExists (fs @ gs) p \<longleftrightarrow> pathExists fs p \<or> pathExists gs p"
  by (auto simp: pathExists_iff)

lemma pathExists_single: "pathExists [(q, n)] p \<longleftrightarrow> prefix p q"
  by (simp add: pathExists_def)

lemma pathExists_update:
  "pathExists (AList.update k v fs) p \<longleftrightarrow> pathExists fs p \<or> prefix p k"
  by (auto simp: pathExists_iff AList.dom_update)

lemma pathExists_prefix: "pathExists fs p \<Longrightarrow> prefix q p \<Longrightarrow> pathExists fs q"
  by (auto simp: pathExists_iff intro: prefix_order.trans)

lemma map_of_filter_keep: "(\<And>n. P (k, n)) \<Longrightarrow> map_of (filter P fs) k = map_of fs k"
  by (induction fs) auto

lemma not_prefix_butlast: "p \<noteq> [] \<Longrightarrow> \<not> prefix p (butlast p)"
  by (metis length_butlast prefix_length_le diff_less length_greater_0_conv less_one not_le)

lemma not_pathExists_remove_entries: "\<not> pathExists (remove_entries p fs) p"
  by (auto simp: pathExists_iff remove_entries_def)

lemma not_pathExists_remove_path: "\<not> pathExists (remove_path p fs) p"
  by (auto simp: remove_path_def Let_def pathExists_append pathExists_single
      not_pathExists_remove_entries not_prefix_butlast)

lemma file_at_append_dir: "file_at (fs @ [(k, Directory)]) q = file_at fs q"
  by (auto simp: file_at_def map_add_def split: option.splits node.splits)

lemma file_at_remove_entries: "\<not> prefix p q \<Longrightarrow> file_at (remove_entries p fs) q = file_at fs q"
  by (simp add: file_at_def remove_entries_def map_of_filter_keep)

lemma file_at_remove_path: "\<not> prefix p q \<Longrightarrow> file_at (remove_path p fs) q = file_at fs q"
  by (simp add: remove_path_def Let_def file_at_append_dir file_at_remove_entries)

lemma file_at_update:
  "file_at (AList.update k v fs) q =
     (if q = k then (case v of File d \<Rightarrow> Some d | Directory \<Rightarrow> None) else file_at fs q)"
  by (simp add: file_at_def AList.update_conv')

lemma isFile_file_at: "isFile fs p \<longleftrightarrow> file_at fs p \<noteq> None"
  by (simp add: isFile_def file_at_def split: option.splits node.splits)

lemma isDirectory_append_dir:
  "\<not> prefix p k \<Longrightarrow> isDirectory (fs @ [(k, Directory)]) p = isDirectory fs p"
  by (simp add: isDirectory_def pathExists_append pathExists_single isFile_file_at file_at_append_dir)


section \<open>Invariants of the installer\<close>

lemma preserves_downloadFile [pres]: "files_indep I \<Longrightarrow> preserves I (downloadFile env u p)"
  unfolding downloadFile_def by (intro pres)

lemma preserves_extractAllTo [pres]: "files_indep I \<Longrightarrow> preserves I (extractAllTo env a p)"
  unfolding extractAllTo_def
  by (intro pres) (auto simp: preserves_def files_indep_def split: sum.splits file_data.splits)

lemma preserves_extractArchive [pres]:
  "files_indep I \<Longrightarrow> logs_closed I \<Longrightarrow> preserves I (extractArchive env a p)"
  unfolding extractArchive_def by (intro pres)

lemma preserves_createMetadata [pres]:
  "files_indep I \<Longrightarrow> preserves I (createMetadata env d n e)"
  unfolding createMetadata_def by (intro pres)

lemma preserves_readPluginManifest [pres]: "logs_closed I \<Longrightarrow> preserves I (readPluginManifest d)"
  unfolding readPluginManifest_def
  by (intro pres) (auto intro!: pres split: file_data.splits)

lemma preserves_scan_type [pres]: "logs_closed I \<Longrightarrow> preserves I (scan_type d t)"
  unfolding scan_type_def by (intro pres)

lemma preserves_scanPluginComponents [pres]:
  "logs_closed I \<Longrightarrow> preserves I (scanPluginComponents d)"
  unfolding scanPluginComponents_def by (intro pres)

lemma preserves_fs_readJson_mcp [pres]: "preserves I (fs_readJson_mcp p)"
  unfolding fs_readJson_mcp_def by (intro pres) (auto intro!: pres split: file_data.splits)

lemma preserves_register_mcp_servers [pres]:
  "settings_indep I \<Longrightarrow> logs_closed I \<Longrightarrow> preserves I (register_mcp_servers env d m)"
  unfolding register_mcp_servers_def
  by (intro pres) (auto intro!: pres split: mcp_field.splits)

lemma preserves_registerPlugin [pres]:
  "settings_indep I \<Longrightarrow> logs_closed I \<Longrightarrow> preserves I (registerPlugin env n e d)"
  unfolding registerPlugin_def by (intro pres)

lemma logged_closed: "logs_closed (\<lambda>w. l \<in> set (logs w))"
  by (simp add: logs_closed_def)

lemma logged_files_indep: "files_indep (\<lambda>w. l \<in> set (logs w))"
  by (simp add: files_indep_def)

lemma logged_settings_indep: "settings_indep (\<lambda>w. l \<in> set (logs w))"
  by (simp add: settings_indep_def)

lemmas logged = logged_closed logged_files_indep logged_settings_indep


section \<open>Registry installs\<close>

lemma ensureDir_ok:
  assumes "\<not> isFile (files w) p"
  shows "\<exists>w1. fs_ensureDir p w = (Inr (), w1) \<and> pathExists (files w1) p \<and>
           logs w1 = logs w \<and> settings w1 = settings w \<and>
           (\<forall>q. file_at (files w1) q = file_at (files w) q) \<and>
           (\<forall>q. \<not> prefix q p \<longrightarrow> isDirectory (files w1) q = isDirectory (files w) q)"
  using assms
  by (auto simp: fs_ensureDir_def pathExists_append pathExists_single file_at_append_dir
      isDirectory_append_dir)

lemma not_prefix_snoc: "\<not> prefix (p @ [a]) p"
  by (simp add: prefix_def)

lemma preserves_verify_archive [pres]: "preserves I (verify_archive env p x)"
  unfolding verify_archive_def by (intro pres)

lemma preserves_verify_integrity [pres]:
  "files_indep I \<Longrightarrow> logs_closed I \<Longrightarrow> preserves I (verify_integrity env p n e)"
  unfolding verify_integrity_def by (intro pres)

lemma preserves_finish_install [pres]:
  "files_indep I \<Longrightarrow> settings_indep I \<Longrightarrow> logs_closed I \<Longrightarrow> preserves I (finish_install env d n e)"
  unfolding finish_install_def by (intro pres)

lemma registry_after_download:
  assumes reg: "\<not> truthy (le_git entry)"
      and cd: "\<not> isFile (files w) (craftDir_of env (le_type entry) name)"
      and ap: "\<not> isDirectory (files w) (archivePath_of env name entry)"
      and dl: "http_get env (le_resolved entry) = Inr bytes"
  shows "\<exists>w2. 
     installCraft env name entry w =
       io_then
         (io_then (verify_integrity env (archivePath_of env name entry) name entry)
           (io_then (extractArchive env (archivePath_of env name entry) (craftDir_of env (le_type entry) name))
                    (fs_remove (archivePath_of env name entry))))
         (finish_install env (craftDir_of env (le_type entry) name) name entry) w2 \<and>
     map_of (files w2) (archivePath_of env name entry) = Some (File (Raw bytes)) \<and>
     logs w2 = logs w \<and>
     (\<forall>q. q \<noteq> archivePath_of env name entry \<longrightarrow> file_at (files w2) q = file_at (files w) q)"
proof -
  let ?cd = "craftDir_of env (le_type entry) name"
  have ap_eq: "archivePath_of env name entry = ?cd @ [''archive.zip'']"
    by (simp add: archivePath_of_def)
  from ensureDir_ok [OF cd] obtain w1 where
    w1: "fs_ensureDir ?cd w = (Inr (), w1)" and ex: "pathExists (files w1) ?cd"
    and l1: "logs w1 = logs w"
    and f1: "\<And>q. file_at (files w1) q = file_at (files w) q"
    and d1: "\<And>q. \<not> prefix q ?cd \<Longrightarrow> isDirectory (files w1) q = isDirectory (files w) q"
    by blast
  have nd: "\<not> isDirectory (files w1) (?cd @ [''archive.zip''])"
    using ap d1 [of "?cd @ [''archive.zip'']"] by (simp add: ap_eq not_prefix_snoc)
  let ?w2 = "w1\<lparr>files := AList.update (?cd @ [''archive.zip'']) (File (Raw bytes)) (files w1)\<rparr>"
  have dlw: "downloadFile env (le_resolved entry) (?cd @ [''archive.zip'']) w1 = (Inr (), ?w2)"
    using nd ex by (simp add: downloadFile_def dl fs_writeFile_def)
  have s1: "\<And>k::unit io. io_then (fs_ensureDir ?cd) k w = k w1"
    using w1 by (simp add: io_then_def io_bind_def)
  have s3: "\<And>(m::unit io) k. io_then (io_then (downloadFile env (le_resolved entry) (?cd @ [''archive.zip''])) m) k w1
      = io_then m k ?w2"
    using dlw by (simp add: io_then_def io_bind_def)
  show ?thesis
    apply (rule exI [of _ ?w2])
    using reg
    by (simp add: installCraft_def Let_def install_from_registry_def
        ap_eq AList.update_conv' l1 file_at_update f1 s1 s3)
qed


lemma io_catch_logger_total: "fst (io_catch m (\<lambda>e. logger (l e)) w) = Inr ()"
  by (auto simp: io_catch_def logger_def split: prod.splits sum.splits)

lemma registerPlugin_total: "fst (registerPlugin env name entry craftDir w) = Inr ()"
  unfolding registerPlugin_def by (rule io_catch_logger_total)

lemma finish_install_result:
  "fst (finish_install env d n e w) = Inr () \<or> (\<exists>m. fst (finish_install env d n e w) = Inl (External m))"
  by (auto simp: finish_install_def io_then_def io_bind_def createMetadata_def fs_writeFile_def
      io_return_def registerPlugin_total split: prod.splits sum.splits if_splits)


lemmas example_defs = example_env_def empty_world_def registry_entry_def git_entry_def
  example_settings_env_def

lemma example_installDir [simp]: "installDir example_env = [''home'', ''project'', ''.claude'']"
  by (simp add: installDir_def example_env_def path_join_def segments_def)

lemma craftDir_of_plain: "plain name \<Longrightarrow>
  craftDir_of env t name = installDir env @ [getTypeDirectory t, name]"
  by (simp add: craftDir_of_def getTypeDirectory_def path_join_plain)

lemma plain_my_skill [simp]: "plain ''my-skill''" "plain ''my-plugin''" "plain ''thing''"
  by (simp_all add: plain_def)



text \<open>
  Claim C7, at an input where the code does not do what the claim says. The
  registry serves an archive that the ZIP decoder rejects; the lock entry has no
  checksum. \<open>extractArchive\<close> throws, the \<open>fs.remove\<close> after it is not reached,
  and the downloaded \<open>archive.zip\<close> stays in the craft directory.
\<close>

theorem installCraft_archive_left_after_failed_extraction:
  "fst (installCraft example_env ''my-skill''
         (registry_entry ''https://registry/bad.zip'' None ''skill'') empty_world) =
     Inl (ExtractError ''Failed to extract archive: Invalid or unsupported zip format'') \<and>
   file_at (files (snd (installCraft example_env ''my-skill''
         (registry_entry ''https://registry/bad.zip'' None ''skill'') empty_world)))
     [''home'', ''project'', ''.claude'', ''skills'', ''my-skill'', ''archive.zip''] = Some (Raw ''XX'')"
  by (simp add: installCraft_def install_from_registry_def Let_def craftDir_of_plain
      getTypeDirectory_def truthy_def registry_entry_def empty_world_def
      io_defs fs_ensureDir_def isFile_def pathExists_def downloadFile_def example_env_def
      fs_writeFile_def isDirectory_def verify_integrity_def extractArchive_def extractAllTo_def
      fs_readFile_def file_at_def installDir_def path_join_def segments_def)

section \<open>Git installs\<close>

lemmas disk_defs = fs_ensureDir_def fs_pathExists_def fs_writeFile_def fs_readFile_def
  fs_remove_def fs_readdir_def fs_copy_def pathExists_def isFile_def isDirectory_def children_def
  remove_path_def remove_entries_def write_tree_def copy_entries_def file_at_def

lemmas path_defs = path_join_def segments_def basename_def installDir_def craftDir_of_def
  getTypeDirectory_def

lemmas git_defs = installFromGit_def git_clone_def git_unshallow_def git_checkout_def
  git_extract_def cloneCmd_def clone_ref_def show_opt_def show_path_def truthy_def

lemmas install_defs = installCraft_def install_from_registry_def finish_install_def
  createMetadata_def downloadFile_def verify_integrity_def verify_archive_def extractArchive_def
  extractAllTo_def

lemma finally_remove_gone: "\<not> pathExists (files (snd (io_finally m (fs_remove p) w))) p"
  by (simp add: io_finally_def fs_remove_def not_pathExists_remove_path split: prod.splits)

lemma finally_remove_result: "fst (io_finally m (fs_remove p) w) = fst (m w)"
  by (simp add: io_finally_def fs_remove_def split: prod.splits)

text \<open>
  Claim C6. Whatever the clone, the checkout and the extraction do, and whether
  they return or throw, no path at or below the temporary clone directory
  \<open><craftDir>/.tmp-git\<close> exists when \<open>installFromGit\<close> is left.
\<close>

theorem installFromGit_removes_temp:
  "\<not> pathExists (files (snd (installFromGit env craftDir entry w))) (path_join craftDir ''.tmp-git'')"
  unfolding installFromGit_def Let_def by (rule finally_remove_gone)


theorem installFromGit_removes_temp_witness:
  "fst (installFromGit example_env [''home'', ''project'', ''.claude'', ''agents'', ''my-agent'']
          (git_entry None (Some ''nope.md'') ''agent'') empty_world) =
     Inl (FileNotFound ''File not found: nope.md in https://git/repo.git'') \<and>
   \<not> pathExists (files (snd (installFromGit example_env
          [''home'', ''project'', ''.claude'', ''agents'', ''my-agent'']
          (git_entry None (Some ''nope.md'') ''agent'') empty_world)))
       [''home'', ''project'', ''.claude'', ''agents'', ''my-agent'', ''.tmp-git'']"
  using installFromGit_removes_temp
    [of example_env "[''home'', ''project'', ''.claude'', ''agents'', ''my-agent'']"
        "git_entry None (Some ''nope.md'') ''agent''" empty_world]
  by (simp add: git_defs path_defs disk_defs io_defs example_defs Let_def)





section \<open>Plugin registration is not fatal\<close>

named_theorems nothrow

lemma never_throwsD: "never_throws m \<Longrightarrow> \<exists>x w'. m w = (Inr x, w')"
  by (metis never_throws_def prod.collapse)

lemma never_throws_return [nothrow]: "never_throws (io_return x)"
  by (simp add: never_throws_def io_return_def)

lemma never_throws_logger [nothrow]: "never_throws (logger l)"
  by (simp add: never_throws_def logger_def)

lemma never_throws_bind [nothrow]:
  "never_throws m \<Longrightarrow> (\<And>x. never_throws (f x)) \<Longrightarrow> never_throws (io_bind m f)"
  unfolding never_throws_def io_bind_def
  by (auto split: prod.splits sum.splits) (metis fst_conv sum.distinct(1))+

lemma never_throws_then [nothrow]:
  "never_throws m \<Longrightarrow> never_throws k \<Longrightarrow> never_throws (io_then m k)"
  by (simp add: io_then_def never_throws_bind)

lemma never_throws_catch [nothrow]:
  "(\<And>e. never_throws (h e)) \<Longrightarrow> never_throws (io_catch m h)"
  unfolding never_throws_def io_catch_def
  by (auto split: prod.splits sum.splits)

lemma never_throws_if [nothrow]:
  "(b \<Longrightarrow> never_throws m) \<Longrightarrow> (\<not> b \<Longrightarrow> never_throws n) \<Longrightarrow> never_throws (if b then m else n)"
  by simp

lemma never_throws_let [nothrow]: "never_throws (f x) \<Longrightarrow> never_throws (Let x f)"
  by simp

lemma never_throws_fs_pathExists [nothrow]: "never_throws (fs_pathExists p)"
  by (simp add: never_throws_def fs_pathExists_def)

lemma never_throws_fs_remove [nothrow]: "never_throws (fs_remove p)"
  by (simp add: never_throws_def fs_remove_def)

lemma never_throws_readSettings [nothrow]: "never_throws (readSettings env)"
  unfolding readSettings_def by (intro nothrow)

lemma never_throws_readPluginManifest [nothrow]: "never_throws (readPluginManifest d)"
  unfolding readPluginManifest_def by (intro nothrow)

lemma never_throws_scan_type [nothrow]: "never_throws (scan_type d t)"
  unfolding scan_type_def by (intro nothrow)

lemma never_throws_scanPluginComponents [nothrow]: "never_throws (scanPluginComponents d)"
  unfolding scanPluginComponents_def by (intro nothrow)

lemma never_throws_registerPlugin [nothrow]: "never_throws (registerPlugin env n e d)"
  unfolding registerPlugin_def by (intro nothrow)

lemma io_then_assoc: "io_then (io_then a b) c = io_then a (io_then b c)"
  by (auto simp: io_then_def io_bind_def fun_eq_iff split: prod.splits sum.splits)

lemma installCraft_split:
  "installCraft env name entry =
     io_then (install_files env name entry)
       (if le_type entry = ''plugin''
        then registerPlugin env name entry (craftDir_of env (le_type entry) name)
        else io_return ())"
  by (simp add: installCraft_def install_files_def finish_install_def Let_def io_then_assoc)

lemma io_then_Inr_iff:
  "io_then m k w = (Inr x, w1) \<longleftrightarrow> (\<exists>u w0. m w = (Inr u, w0) \<and> k w0 = (Inr x, w1))"
  by (auto simp: io_then_def io_bind_def split: prod.splits sum.splits)

lemma fs_writeFile_Inr:
  "fs_writeFile p d w = (Inr u, w1) \<Longrightarrow> file_at (files w1) p = Some d \<and> logs w1 = logs w"
  by (auto simp: fs_writeFile_def file_at_update split: if_splits)

lemma install_files_metadata:
  assumes "install_files env name entry w = (Inr (), w1)"
  shows "file_at (files w1) (craftDir_of env (le_type entry) name @ [''.craftdesk-metadata.json''])
           = Some (MetadataJson (metadata_of env name entry))"
  using assms
  by (auto simp: install_files_def Let_def io_then_Inr_iff createMetadata_def metadata_of_def
      dest!: fs_writeFile_Inr)

lemma files_kept_indep:
  "settings_indep (\<lambda>w. files w = F)" "logs_closed (\<lambda>w. files w = F)"
  by (simp_all add: settings_indep_def logs_closed_def)

lemma registerPlugin_keeps_files:
  "files (snd (registerPlugin env name entry d w)) = files w"
  using preservesD [OF preserves_registerPlugin [OF files_kept_indep, of "files w"], of w env name entry d]
  by simp

lemma sm_registerPlugin_write_error:
  assumes "sm_write_error env = Some e"
  shows "\<exists>e' w'. sm_registerPlugin env cfg w = (Inl e', w')"
proof -
  from never_throwsD [OF never_throws_readSettings] obtain s w0
    where "readSettings env w = (Inr s, w0)" by blast
  then show ?thesis using assms
    by (auto simp: sm_registerPlugin_def io_bind_def io_then_def writeSettings_def io_catch_def
        settings_writeFile_def io_throw_def logger_def split: option.splits)
qed

lemma registerPlugin_warns:
  assumes "sm_write_error (sm_env env) = Some e"
  shows "\<exists>m. registration_warning name m \<in> set (logs (snd (registerPlugin env name entry d w)))"
proof -
  from never_throwsD [OF never_throws_readPluginManifest] obtain manifest w1
    where m: "readPluginManifest d w = (Inr manifest, w1)" by blast
  from never_throwsD [OF never_throws_scanPluginComponents] obtain sc w2
    where s: "scanPluginComponents d w1 = (Inr sc, w2)" by blast
  from sm_registerPlugin_write_error [OF assms] obtain e' w3
    where r: "sm_registerPlugin (sm_env env)
                (pluginConfig env name entry d manifest (merge_components sc manifest)) w2 = (Inl e', w3)"
    by blast
  have "registerPlugin env name entry d w =
          logger (registration_warning name (message e')) w3"
    by (simp add: registerPlugin_def io_catch_def io_bind_def io_then_def m s r
        registration_warning_def)
  then show ?thesis by (auto simp: logger_def)
qed

text \<open>
  Claim C8. For a plugin whose files and metadata record were written, whatever
  the state of the settings file and whether or not the settings store can be
  written, \<open>installCraft\<close> returns normally, the disk is exactly what the install
  left (the metadata record included), and when the settings store rejects the
  write the failure shows as a warning in the log.
\<close>

theorem installCraft_registration_nonfatal:
  assumes plugin: "le_type entry = ''plugin''"
      and inst: "install_files env name entry w = (Inr (), w1)"
  shows "fst (installCraft env name entry w) = Inr () \<and>
         files (snd (installCraft env name entry w)) = files w1 \<and>
         file_at (files (snd (installCraft env name entry w)))
           (craftDir_of env ''plugin'' name @ [''.craftdesk-metadata.json'']) =
             Some (MetadataJson (metadata_of env name entry)) \<and>
         (\<forall>e. sm_write_error (sm_env env) = Some e \<longrightarrow>
            (\<exists>m. registration_warning name m \<in> set (logs (snd (installCraft env name entry w)))))"
proof -
  let ?d = "craftDir_of env (le_type entry) name"
  have run: "installCraft env name entry w = registerPlugin env name entry ?d w1"
    by (simp add: installCraft_split plugin io_then_def io_bind_def inst)
  from never_throwsD [OF never_throws_registerPlugin, of env name entry ?d w1]
  have ok: "fst (installCraft env name entry w) = Inr ()"
    by (auto simp: run)
  have keep: "files (snd (installCraft env name entry w)) = files w1"
    by (simp add: run registerPlugin_keeps_files)
  show ?thesis
    using ok keep install_files_metadata [OF inst] registerPlugin_warns [of env _ name entry ?d w1]
    by (auto simp: run plugin)
qed

theorem installCraft_registration_nonfatal_witness:
  "le_type (registry_entry ''https://registry/ok.zip'' None ''plugin'') = ''plugin'' \<and>
   install_files readonly_env ''my-plugin''
     (registry_entry ''https://registry/ok.zip'' None ''plugin'') empty_world =
       (Inr (), plugin_files_world) \<and>
   sm_write_error (sm_env readonly_env) = Some (External ''EACCES: permission denied'') \<and>
   fst (installCraft readonly_env ''my-plugin''
     (registry_entry ''https://registry/ok.zip'' None ''plugin'') empty_world) = Inr () \<and>
   files (snd (installCraft readonly_env ''my-plugin''
     (registry_entry ''https://registry/ok.zip'' None ''plugin'') empty_world)) =
       files plugin_files_world \<and>
   (\<exists>m. registration_warning ''my-plugin'' m \<in> set (logs (snd (installCraft readonly_env ''my-plugin''
     (registry_entry ''https://registry/ok.zip'' None ''plugin'') empty_world))))"
proof -
  have t: "le_type (registry_entry ''https://registry/ok.zip'' None ''plugin'') = ''plugin''"
    by (simp add: registry_entry_def)
  have h: "install_files readonly_env ''my-plugin''
     (registry_entry ''https://registry/ok.zip'' None ''plugin'') empty_world =
       (Inr (), plugin_files_world)"
    by (simp add: install_files_def install_defs path_defs disk_defs io_defs example_defs
        readonly_env_def plugin_files_world_def truthy_def show_path_def Let_def)
  have e: "sm_write_error (sm_env readonly_env) = Some (External ''EACCES: permission denied'')"
    by (simp add: readonly_env_def)
  show ?thesis
    using installCraft_registration_nonfatal [OF t h] t h e by simp
qed

section \<open>Components of a registered plugin\<close>

lemma merge_law:
  "skills (merge_components scanned manifest) =
     (case declared manifest skills of Some xs \<Rightarrow> Some xs | None \<Rightarrow> skills scanned)"
  "agents (merge_components scanned manifest) =
     (case declared manifest agents of Some xs \<Rightarrow> Some xs | None \<Rightarrow> agents scanned)"
  "commands (merge_components scanned manifest) =
     (case declared manifest commands of Some xs \<Rightarrow> Some xs | None \<Rightarrow> commands scanned)"
  "hooks (merge_components scanned manifest) =
     (case declared manifest hooks of Some xs \<Rightarrow> Some xs | None \<Rightarrow> hooks scanned)"
  by (auto simp: merge_components_def declared_def Let_def split: option.splits)

lemma registered_components_pluginConfig:
  "registered_components (pluginConfig env name entry d manifest (c::components_rec)) = c"
  by (cases c) (auto simp: registered_components_def pluginConfig_def)

lemma plugins_are_indep:
  "files_indep (plugins_are ps)" "logs_closed (plugins_are ps)"
  by (simp_all add: files_indep_def logs_closed_def plugins_are_def)

lemma settings_kept_indep:
  "files_indep (\<lambda>w. settings w = S)" "logs_closed (\<lambda>w. settings w = S)"
  by (simp_all add: files_indep_def logs_closed_def)

lemma readSettings_Json:
  "settings w = Text (Json s) \<Longrightarrow> readSettings env w = (Inr s, w)"
  by (simp add: sm_defs io_defs)

lemma preserves_plugins_are_mcp:
  "preserves (plugins_are ps) (sm_registerMCPServer env n c)"
  by (auto simp: preserves_def plugins_are_def sm_registerMCPServer_def readSettings_Json
      io_bind_def io_then_def writeSettings_def io_catch_def settings_writeFile_def logger_def
      io_throw_def split: option.splits)

lemma preserves_plugins_are_mcp_servers:
  "preserves (plugins_are ps) (register_mcp_servers env d m)"
  unfolding register_mcp_servers_def
  by (intro preserves_plugins_are_mcp pres plugins_are_indep)
     (auto intro!: preserves_plugins_are_mcp pres plugins_are_indep split: mcp_field.splits)

lemma sm_registerPlugin_usable:
  assumes "sm_write_error env = None" "settings_usable (settings w)"
  shows "\<exists>w' ps c. sm_registerPlugin env cfg w = (Inr (), w') \<and> plugins_are ps w' \<and>
            map_of ps (pc_name cfg) = Some c \<and> pc_components c = pc_components cfg"
  using assms
  by (auto simp: sm_registerPlugin_def sm_defs io_defs settings_usable_def plugins_are_def
      createDefaultSettings_def AList.update_conv'
      split: settings_file.splits settings_text.splits option.splits)


lemma registered_components_cong:
  "pc_components c = pc_components c' \<Longrightarrow> registered_components c = registered_components c'"
  by (simp add: registered_components_def)

lemma pc_name_pluginConfig [simp]: "pc_name (pluginConfig env name entry d manifest c) = name"
  by (simp add: pluginConfig_def)

text \<open>
  Claim C3. When the settings store accepts the registration, the plugin entry
  that \<open>registerPlugin\<close> leaves in the settings carries exactly the merge of the
  scanned components with the manifest read from the plugin directory. For each
  of the four types the merged list is the list the manifest declares when it
  declares one, and the scanned list otherwise: one of the two, never a union. A
  manifest that declares the skills \<open>[a]\<close> with a scanned agent \<open>b\<close> gives the
  skills \<open>[a]\<close> and the agents \<open>[b]\<close>.
\<close>

theorem registerPlugin_components:
  assumes wr: "sm_write_error (sm_env env) = None"
      and us: "settings_usable (settings w)"
  shows
    "(\<exists>manifest w1 scanned w2 ps cfg.
        readPluginManifest d w = (Inr manifest, w1) \<and>
        scanPluginComponents d w1 = (Inr scanned, w2) \<and>
        plugins_are ps (snd (registerPlugin env name entry d w)) \<and>
        map_of ps name = Some cfg \<and>
        registered_components cfg = merge_components scanned manifest) \<and>
     skills (merge_components sc m) =
       (case declared m skills of Some xs \<Rightarrow> Some xs | None \<Rightarrow> skills sc) \<and>
     agents (merge_components sc m) =
       (case declared m agents of Some xs \<Rightarrow> Some xs | None \<Rightarrow> agents sc) \<and>
     commands (merge_components sc m) =
       (case declared m commands of Some xs \<Rightarrow> Some xs | None \<Rightarrow> commands sc) \<and>
     hooks (merge_components sc m) =
       (case declared m hooks of Some xs \<Rightarrow> Some xs | None \<Rightarrow> hooks sc) \<and>
     merge_components \<lparr>skills = None, agents = Some [b], commands = None, hooks = None\<rparr>
       (Some (pm\<lparr>pm_components :=
          Some \<lparr>skills = Some [a], agents = None, commands = None, hooks = None\<rparr>\<rparr>)) =
       \<lparr>skills = Some [a], agents = Some [b], commands = None, hooks = None\<rparr>"
proof -
  from never_throwsD [OF never_throws_readPluginManifest] obtain manifest w1
    where m: "readPluginManifest d w = (Inr manifest, w1)" by blast
  from never_throwsD [OF never_throws_scanPluginComponents] obtain scanned w2
    where s: "scanPluginComponents d w1 = (Inr scanned, w2)" by blast
  have "settings w1 = settings w"
    using preservesD [OF preserves_readPluginManifest [OF settings_kept_indep(2), of "settings w"], of w d]
    by (simp add: m)
  moreover have "settings w2 = settings w1"
    using preservesD [OF preserves_scanPluginComponents [OF settings_kept_indep(2), of "settings w1"], of w1 d]
    by (simp add: s)
  ultimately have us2: "settings_usable (settings w2)" using us by simp
  let ?cfg = "pluginConfig env name entry d manifest (merge_components scanned manifest)"
  from sm_registerPlugin_usable [OF wr us2, of ?cfg] obtain w3 ps c where
    r: "sm_registerPlugin (sm_env env) ?cfg w2 = (Inr (), w3)" and pa: "plugins_are ps w3"
    and look: "map_of ps name = Some c" and comp: "pc_components c = pc_components ?cfg"
    by auto
  let ?tail = "io_catch
      (io_then (logger (Debug (''Registered plugin '' @ name @ '' in settings.json'')))
               (register_mcp_servers env d manifest))
      (\<lambda>e. logger (Warn (''Failed to register plugin '' @ name @ '': '' @ message e)))"
  have run: "registerPlugin env name entry d w = ?tail w3"
    by (simp add: registerPlugin_def io_catch_def io_bind_def io_then_def m s r)
  have "preserves (plugins_are ps) ?tail"
    by (intro preserves_plugins_are_mcp_servers pres plugins_are_indep)
  from preservesD [OF this pa]
  have "plugins_are ps (snd (registerPlugin env name entry d w))"
    by (simp add: run)
  moreover have "registered_components c = merge_components scanned manifest"
    using registered_components_cong [OF comp] by (simp add: registered_components_pluginConfig)
  ultimately have part1: "\<exists>manifest w1 scanned w2 ps cfg.
        readPluginManifest d w = (Inr manifest, w1) \<and>
        scanPluginComponents d w1 = (Inr scanned, w2) \<and>
        plugins_are ps (snd (registerPlugin env name entry d w)) \<and>
        map_of ps name = Some cfg \<and>
        registered_components cfg = merge_components scanned manifest"
    using m s look by blast
  have ex: "merge_components \<lparr>skills = None, agents = Some [b], commands = None, hooks = None\<rparr>
       (Some (pm\<lparr>pm_components :=
          Some \<lparr>skills = Some [a], agents = None, commands = None, hooks = None\<rparr>\<rparr>)) =
       \<lparr>skills = Some [a], agents = Some [b], commands = None, hooks = None\<rparr>"
    by (simp add: merge_components_def)
  show ?thesis
    using part1 merge_law [of sc m] ex by blast
qed

lemmas plugin_defs = readPluginManifest_def scanPluginComponents_def scan_type_def
  fs_readdir_types_def

theorem registerPlugin_components_witness:
  "sm_write_error (sm_env example_env) = None \<and>
   settings_usable (settings plugin_on_disk) \<and>
   (\<exists>ps cfg.
      plugins_are ps (snd (registerPlugin example_env ''my-plugin''
         (registry_entry ''https://registry/ok.zip'' None ''plugin'') plugin_dir plugin_on_disk)) \<and>
      map_of ps ''my-plugin'' = Some cfg \<and>
      registered_components cfg =
        \<lparr>skills = Some [''a''], agents = Some [''b''], commands = None, hooks = None\<rparr>)"
proof -
  have wr: "sm_write_error (sm_env example_env) = None"
    by (simp add: example_defs)
  have us: "settings_usable (settings plugin_on_disk)"
    by (simp add: settings_usable_def plugin_on_disk_def)
  have m: "readPluginManifest plugin_dir plugin_on_disk = (Inr (Some declaring_manifest), plugin_on_disk)"
    by (simp add: plugin_defs disk_defs io_defs plugin_on_disk_def plugin_dir_def Let_def)
  have s: "scanPluginComponents plugin_dir plugin_on_disk =
      (Inr \<lparr>skills = None, agents = Some [''b''], commands = None, hooks = None\<rparr>, plugin_on_disk)"
    by (simp add: plugin_defs disk_defs io_defs plugin_on_disk_def plugin_dir_def Let_def)
  have mg: "merge_components \<lparr>skills = None, agents = Some [''b''], commands = None, hooks = None\<rparr>
      (Some declaring_manifest) =
        \<lparr>skills = Some [''a''], agents = Some [''b''], commands = None, hooks = None\<rparr>"
    by (simp add: merge_components_def declaring_manifest_def)
  show ?thesis
    using registerPlugin_components [OF wr us, of plugin_dir "''my-plugin''"
        "registry_entry ''https://registry/ok.zip'' None ''plugin''"] wr us
    by (auto simp: m s mg)
qed

section \<open>What an install leaves untouched\<close>

lemma outside_append [simp]: "outside d (fs @ gs) = outside d fs @ outside d gs"
  by (simp add: outside_def)

lemma outside_update: "prefix d p \<Longrightarrow> outside d (AList.update p v fs) = outside d fs"
  by (induction fs) (auto simp: outside_def)

lemma outside_filter:
  "(\<And>q n. (q, n) \<in> set fs \<Longrightarrow> \<not> P (q, n) \<Longrightarrow> prefix d q) \<Longrightarrow> outside d (filter P fs) = outside d fs"
  by (induction fs) (auto simp: outside_def)

lemma outside_remove_entries: "prefix d p \<Longrightarrow> outside d (remove_entries p fs) = outside d fs"
  unfolding remove_entries_def
  by (rule outside_filter) (auto intro: prefix_order.trans)

lemma outside_remove_path:
  "prefix d (butlast p) \<Longrightarrow> p \<noteq> [] \<Longrightarrow> outside d (remove_path p fs) = outside d fs"
proof -
  assume a: "prefix d (butlast p)" and "p \<noteq> []"
  then have "prefix d p"
    by (metis append_butlast_last_id prefix_order.trans prefixI)
  then show ?thesis using a
    by (simp add: remove_path_def Let_def outside_remove_entries) (simp add: outside_def)
qed

lemma outside_write_tree: "prefix d dst \<Longrightarrow> outside d (write_tree dst tree fs) = outside d fs"
  unfolding write_tree_def
  by (induction tree arbitrary: fs) (auto simp: outside_update)

lemma outside_copy_entries: "prefix d dst \<Longrightarrow> outside d (copy_entries src dst fs) = outside d fs"
  by (simp add: copy_entries_def outside_write_tree)

lemma frame_indep: "settings_indep (frame d F)" "logs_closed (frame d F)"
  by (simp_all add: frame_def settings_indep_def logs_closed_def)

lemma frame_fs_ensureDir: "prefix d p \<Longrightarrow> preserves (frame d F) (fs_ensureDir p)"
  by (simp add: preserves_def frame_def fs_ensureDir_def) (simp add: outside_def)

lemma frame_fs_writeFile: "prefix d p \<Longrightarrow> preserves (frame d F) (fs_writeFile p x)"
  by (simp add: preserves_def frame_def fs_writeFile_def outside_update)

lemma frame_fs_remove: "prefix d p \<Longrightarrow> preserves (frame d F) (fs_remove (p @ [a]))"
  by (simp add: preserves_def frame_def fs_remove_def outside_remove_path)

lemma frame_fs_copy: "prefix d dst \<Longrightarrow> preserves (frame d F) (fs_copy src dst)"
  by (simp add: preserves_def frame_def fs_copy_def outside_copy_entries)

lemma prefix_snoc: "prefix d p \<Longrightarrow> prefix d (p @ q)"
  by (simp add: prefix_prefix)

lemma frame_downloadFile: "prefix d p \<Longrightarrow> preserves (frame d F) (downloadFile env u p)"
  unfolding downloadFile_def by (intro frame_fs_writeFile pres)

lemma frame_extractAllTo: "prefix d p \<Longrightarrow> preserves (frame d F) (extractAllTo env a p)"
  unfolding extractAllTo_def
  by (intro pres) (auto simp: preserves_def frame_def outside_write_tree split: sum.splits file_data.splits)

lemma frame_install_from_registry:
  "prefix d c \<Longrightarrow> preserves (frame d F) (install_from_registry env c name entry)"
  unfolding install_from_registry_def verify_integrity_def extractArchive_def Let_def
    path_join_literals
  by (intro frame_downloadFile frame_fs_remove frame_extractAllTo pres frame_indep prefix_snoc)

lemma frame_git_clone: "prefix d t \<Longrightarrow> preserves (frame d F) (git_clone env u r t)"
  by (auto simp: preserves_def frame_def git_clone_def outside_write_tree split: sum.splits)

lemma frame_git_unshallow: "prefix d t \<Longrightarrow> preserves (frame d F) (git_unshallow env u t)"
  by (auto simp: preserves_def frame_def git_unshallow_def outside_remove_entries prefix_snoc
      split: option.splits)

lemma frame_git_checkout: "prefix d t \<Longrightarrow> preserves (frame d F) (git_checkout env u c t)"
  by (auto simp: preserves_def frame_def git_checkout_def outside_write_tree
      split: sum.splits intro!: outside_filter [THEN trans] dest: prefix_order.trans
      simp: strict_prefix_def)

lemma frame_git_extract:
  assumes "prefix d c"
      and "truthy (le_file entry) \<Longrightarrow> prefix d (path_join c (basename (show_opt (le_file entry))))"
  shows "preserves (frame d F) (git_extract t c entry)"
  unfolding git_extract_def Let_def
  using assms by (intro frame_fs_copy pres prefix_snoc) auto

lemma frame_installFromGit:
  assumes "prefix d c"
      and "truthy (le_file entry) \<Longrightarrow> prefix d (path_join c (basename (show_opt (le_file entry))))"
  shows "preserves (frame d F) (installFromGit env c entry)"
  unfolding installFromGit_def Let_def path_join_literals
  using assms
  by (intro frame_git_clone frame_git_unshallow frame_git_checkout frame_git_extract
      frame_fs_remove pres frame_indep prefix_snoc) auto

lemma frame_finish_install: "prefix d c \<Longrightarrow> preserves (frame d F) (finish_install env c name entry)"
  unfolding finish_install_def createMetadata_def path_join_literals
  by (intro frame_fs_writeFile pres frame_indep prefix_snoc)

lemma frame_installCraft:
  assumes "prefix d (craftDir_of env (le_type entry) name)"
      and "truthy (le_file entry) \<Longrightarrow>
           prefix d (path_join (craftDir_of env (le_type entry) name) (basename (show_opt (le_file entry))))"
  shows "preserves (frame d F) (installCraft env name entry)"
  unfolding installCraft_def Let_def
  using assms
  by (intro frame_fs_ensureDir frame_installFromGit frame_install_from_registry
      frame_finish_install pres) auto

lemma split_on_elems_all: "c \<notin> set acc \<Longrightarrow> \<forall>x\<in>set (split_on c acc s). c \<notin> set x"
proof (induction s arbitrary: acc)
  case Nil
  then show ?case by simp
next
  case (Cons a s)
  show ?case
  proof (cases "a = c")
    case True
    then show ?thesis using Cons.IH [of "[]"] Cons.prems by simp
  next
    case False
    then show ?thesis using Cons.IH [of "a # acc"] Cons.prems by simp
  qed
qed

lemma split_on_elems: "c \<notin> set acc \<Longrightarrow> x \<in> set (split_on c acc s) \<Longrightarrow> c \<notin> set x"
  using split_on_elems_all by blast

lemma basename_no_slash: "CHR ''/'' \<notin> set (basename s)"
proof (cases "filter (\<lambda>x. x \<noteq> []) (segments s)")
  case Nil
  then show ?thesis by (simp add: basename_def)
next
  case (Cons y ys)
  then have "basename s = last (y # ys)"
    by (simp add: basename_def)
  moreover have "last (y # ys) \<in> set (y # ys)"
    by (rule last_in_set) simp
  moreover have "set (y # ys) \<subseteq> set (segments s)"
    unfolding Cons [symmetric] by (rule filter_is_subset)
  ultimately have "basename s \<in> set (segments s)"
    by auto
  then show ?thesis
    using split_on_elems [of "CHR ''/''" "[]" "basename s" s] by (simp add: segments_def)
qed

lemma path_join_segment:
  "CHR ''/'' \<notin> set b \<Longrightarrow>
     path_join p b = (if b = [] \<or> b = ''.'' then p else if b = ''..'' then butlast p else p @ [b])"
  by (simp add: path_join_def segments_def split_on_no_sep butlast_rev [of "rev p", simplified])

lemma prefix_path_join_basename: "prefix d (path_join (d @ [n]) (basename s))"
  by (simp add: path_join_segment [OF basename_no_slash])

named_theorems ro

lemma reads_outside_return [ro]: "reads_outside d (io_return x)"
  by (simp add: reads_outside_def io_return_def)

lemma reads_outside_throw [ro]: "reads_outside d (io_throw x)"
  by (simp add: reads_outside_def io_throw_def)

lemma reads_outsideD:
  "reads_outside d m \<Longrightarrow> outside d (files w) = outside d (files w') \<Longrightarrow>
     fst (m w) = fst (m w') \<and> outside d (files (snd (m w))) = outside d (files (snd (m w')))"
  unfolding reads_outside_def by blast

lemma reads_outside_bind [ro]:
  assumes "reads_outside d m" "\<And>x. reads_outside d (f x)"
  shows "reads_outside d (io_bind m f)"
  unfolding reads_outside_def
proof (intro allI impI)
  fix w w' :: world
  assume eq: "outside d (files w) = outside d (files w')"
  obtain r v where mw: "m w = (r, v)" by (cases "m w")
  obtain r' v' where mw': "m w' = (r', v')" by (cases "m w'")
  from reads_outsideD [OF assms(1) eq] have rr: "r = r'"
    and vv: "outside d (files v) = outside d (files v')"
    by (simp_all add: mw mw')
  show "fst (io_bind m f w) = fst (io_bind m f w') \<and>
        outside d (files (snd (io_bind m f w))) = outside d (files (snd (io_bind m f w')))"
  proof (cases r)
    case (Inl e)
    then show ?thesis using rr vv by (simp add: io_bind_def mw mw')
  next
    case (Inr x)
    have "io_bind m f w = f x v" "io_bind m f w' = f x v'"
      using Inr rr by (simp_all add: io_bind_def mw mw')
    then show ?thesis using reads_outsideD [OF assms(2) vv, of x] by simp
  qed
qed

lemma reads_outside_if [ro]:
  "(b \<Longrightarrow> reads_outside d m) \<Longrightarrow> (\<not> b \<Longrightarrow> reads_outside d n) \<Longrightarrow> reads_outside d (if b then m else n)"
  by simp

lemma reads_outside_let [ro]: "reads_outside d (f x) \<Longrightarrow> reads_outside d (Let x f)"
  by simp

lemma reads_outside_case_prod [ro]:
  "(\<And>a b. reads_outside d (f a b)) \<Longrightarrow> reads_outside d (case_prod f p)"
  by (cases p) simp

lemma reads_outside_collect [ro]:
  assumes "\<And>x. reads_outside d (f x)"
  shows "reads_outside d (io_collect xs f)"
proof (induction xs)
  case Nil
  show ?case by (simp add: reads_outside_return)
next
  case (Cons x xs)
  show ?case
    unfolding io_collect.simps
    by (intro reads_outside_bind reads_outside_return assms Cons.IH)
qed


lemma apart_outside:
  assumes "\<not> prefix d p" "\<not> prefix p d"
  shows "filter (\<lambda>(q, _). prefix p q) (outside d fs) = filter (\<lambda>(q, _). prefix p q) fs"
proof -
  have "prefix p q \<Longrightarrow> \<not> prefix d q" for q
    using assms by (metis prefix_same_cases)
  then show ?thesis
    unfolding outside_def by (induction fs) auto
qed

lemma pathExists_filter: "pathExists fs p \<longleftrightarrow> filter (\<lambda>(q, _). prefix p q) fs \<noteq> []"
  by (auto simp: pathExists_def list_ex_iff filter_empty_conv)

lemma pathExists_outside:
  assumes "\<not> prefix d p" "\<not> prefix p d"
  shows "pathExists (outside d fs) p = pathExists fs p"
  by (simp add: pathExists_filter apart_outside [OF assms])

lemma map_of_outside: "\<not> prefix d p \<Longrightarrow> map_of (outside d fs) p = map_of fs p"
  unfolding outside_def by (rule map_of_filter_keep) simp

lemma children_via_filter:
  "children fs p = remdups (map (\<lambda>(q, _). q ! length p)
      (filter (\<lambda>(q, _). q \<noteq> p) (filter (\<lambda>(q, _). prefix p q) fs)))"
proof -
  have "filter (\<lambda>(q, _). strict_prefix p q) fs =
        filter (\<lambda>(q, _). q \<noteq> p) (filter (\<lambda>(q, _). prefix p q) fs)"
    by (induction fs) (auto simp: strict_prefix_def)
  then show ?thesis by (simp only: children_def)
qed

lemma children_outside:
  assumes "\<not> prefix d p" "\<not> prefix p d"
  shows "children (outside d fs) p = children fs p"
  by (simp add: children_via_filter apart_outside [OF assms])


lemma isFile_outside: "\<not> prefix d p \<Longrightarrow> isFile (outside d fs) p = isFile fs p"
  by (simp add: isFile_def map_of_outside)

lemma pathExists_by_outside:
  assumes "\<not> prefix d p" "\<not> prefix p d" "outside d fs = outside d gs"
  shows "pathExists fs p = pathExists gs p"
  by (metis assms pathExists_outside)

lemma children_by_outside:
  assumes "\<not> prefix d p" "\<not> prefix p d" "outside d fs = outside d gs"
  shows "children fs p = children gs p"
  by (metis assms children_outside)

lemma map_of_by_outside:
  assumes "\<not> prefix d p" "outside d fs = outside d gs"
  shows "map_of fs p = map_of gs p"
  by (metis assms map_of_outside)

lemma reads_outside_fs_pathExists [ro]:
  "\<not> prefix d p \<Longrightarrow> \<not> prefix p d \<Longrightarrow> reads_outside d (fs_pathExists p)"
  by (auto simp: reads_outside_def fs_pathExists_def dest: pathExists_by_outside)

lemma reads_outside_fs_readdir [ro]:
  assumes "\<not> prefix d p" "\<not> prefix p d"
  shows "reads_outside d (fs_readdir p)"
  unfolding reads_outside_def
proof (intro allI impI)
  fix w w' :: world
  assume eq: "outside d (files w) = outside d (files w')"
  have 1: "pathExists (files w) p = pathExists (files w') p"
    by (rule pathExists_by_outside [OF assms eq])
  have 2: "children (files w) p = children (files w') p"
    by (rule children_by_outside [OF assms eq])
  have 3: "isFile (files w) p = isFile (files w') p"
    by (simp add: isFile_def map_of_by_outside [OF assms(1) eq])
  show "fst (fs_readdir p w) = fst (fs_readdir p w') \<and>
        outside d (files (snd (fs_readdir p w))) = outside d (files (snd (fs_readdir p w')))"
    by (simp add: fs_readdir_def 1 2 3 eq)
qed

lemma reads_outside_fs_readFile [ro]:
  assumes "\<not> prefix d p" "\<not> prefix p d"
  shows "reads_outside d (fs_readFile p)"
  unfolding reads_outside_def
proof (intro allI impI)
  fix w w' :: world
  assume eq: "outside d (files w) = outside d (files w')"
  have 1: "pathExists (files w) p = pathExists (files w') p"
    by (rule pathExists_by_outside [OF assms eq])
  have 3: "map_of (files w) p = map_of (files w') p"
    by (rule map_of_by_outside [OF assms(1) eq])
  show "fst (fs_readFile p w) = fst (fs_readFile p w') \<and>
        outside d (files (snd (fs_readFile p w))) = outside d (files (snd (fs_readFile p w')))"
    by (simp add: fs_readFile_def 1 3 eq split: option.splits node.splits)
qed

lemma apart_snoc: "a \<noteq> b \<Longrightarrow> \<not> prefix (p @ [a]) (p @ b # q) \<and> \<not> prefix (p @ b # q) (p @ [a])"
  by auto

lemma reads_outside_list_craft:
  assumes "t \<noteq> ''crafts''"
  shows "reads_outside (i @ [''crafts'']) (list_craft (i @ [t]) c)"
  unfolding list_craft_def Let_def path_join_literals fs_readJson_metadata_def
  using assms
  by (intro ro) (auto intro!: ro split: file_data.splits)

lemma reads_outside_list_typeDir:
  assumes "t \<in> set typeDirs"
  shows "reads_outside (installDir env @ [''crafts'']) (list_typeDir env t)"
proof -
  have t: "t \<noteq> ''crafts''" and pj: "path_join (installDir env) t = installDir env @ [t]"
    using assms by (auto simp: typeDirs_def)
  show ?thesis
    unfolding list_typeDir_def Let_def pj
    using t by (intro ro reads_outside_list_craft) auto
qed

lemma reads_outside_collect_mem:
  assumes "\<And>x. x \<in> set xs \<Longrightarrow> reads_outside d (f x)"
  shows "reads_outside d (io_collect xs f)"
  using assms
proof (induction xs)
  case Nil
  show ?case by (simp add: reads_outside_return)
next
  case (Cons x xs)
  show ?case
    unfolding io_collect.simps
    by (intro reads_outside_bind reads_outside_return Cons.IH Cons.prems) auto
qed

lemma reads_outside_scan:
  "reads_outside (installDir env @ [''crafts'']) (io_collect typeDirs (list_typeDir env))"
  by (rule reads_outside_collect_mem) (rule reads_outside_list_typeDir)

lemma listInstalled_scan:
  "fst (listInstalled env w) = fst (io_collect typeDirs (list_typeDir env) w)"
proof (cases "pathExists (files w) (installDir env)")
  case True
  then show ?thesis by (simp add: listInstalled_def io_bind_def fs_pathExists_def)
next
  case False
  then have "\<not> pathExists (files w) (installDir env @ [t])" for t
    using pathExists_prefix [of "files w" "installDir env @ [t]" "installDir env"] by auto
  then have "list_typeDir env t w = (Inr [], w)" if "t \<in> set typeDirs" for t
    using that by (auto simp: list_typeDir_def Let_def io_bind_def fs_pathExists_def io_return_def
        typeDirs_def)
  then have "io_collect typeDirs (list_typeDir env) w = (Inr [], w)"
    by (simp add: typeDirs_def io_bind_def io_return_def)
  then show ?thesis using False
    by (simp add: listInstalled_def io_bind_def fs_pathExists_def io_return_def)
qed

lemma normalize_safe:
  "''..'' \<notin> set ss \<Longrightarrow> normalize st ss = rev st @ filter (\<lambda>s. s \<noteq> [] \<and> s \<noteq> ''.'') ss"
  by (induction ss arbitrary: st) auto

lemma path_join_safe: "safe_name name \<Longrightarrow> path_join p name = p @ real_segments name"
  by (simp add: path_join_def safe_name_def real_segments_def normalize_safe)

lemma path_join_typeDir: "path_join p (getTypeDirectory t) = p @ [getTypeDirectory t]"
  by (simp add: getTypeDirectory_def)

lemma craftDir_of_safe:
  "safe_name name \<Longrightarrow>
     craftDir_of env t name = installDir env @ getTypeDirectory t # real_segments name"
  by (simp add: craftDir_of_def path_join_typeDir path_join_safe)

lemma plain_safe_name: "plain name \<Longrightarrow> safe_name name"
  by (auto simp: plain_def safe_name_def real_segments_def segments_def split_on_no_sep)

lemma prefix_path_join_basename_below:
  "ns \<noteq> [] \<Longrightarrow> prefix d (path_join (d @ ns) (basename s))"
  by (simp add: path_join_segment [OF basename_no_slash] butlast_append)

lemma getTypeDirectory_unknown: "\<not> known_kind t \<Longrightarrow> getTypeDirectory t = ''crafts''"
  by (simp add: known_kind_def getTypeDirectory_def)

lemma installCraft_success_metadata:
  assumes "fst (installCraft env name entry w) = Inr ()" "le_type entry \<noteq> ''plugin''"
  shows "file_at (files (snd (installCraft env name entry w)))
           (craftDir_of env (le_type entry) name @ [''.craftdesk-metadata.json'']) =
         Some (MetadataJson (metadata_of env name entry))"
proof -
  have run: "installCraft env name entry w = io_then (install_files env name entry) (io_return ()) w"
    using assms(2) by (simp add: installCraft_split)
  obtain r w1 where i: "install_files env name entry w = (r, w1)"
    by (cases "install_files env name entry w")
  with assms(1) run have "r = Inr ()"
    by (cases r) (auto simp: io_then_def io_bind_def io_return_def)
  then have "install_files env name entry w = (Inr (), w1)"
    and "installCraft env name entry w = (Inr (), w1)"
    using i run by (simp_all add: io_then_def io_bind_def io_return_def)
  then show ?thesis using install_files_metadata by simp
qed


lemmas list_defs = listInstalled_def list_typeDir_def list_craft_def fs_readJson_metadata_def
  typeDirs_def


section \<open>Installing a lockfile\<close>

lemma install_loop_step:
  "install_loop env ((name, entry) # rest) i n w =
     (case installCraft env name entry (with_log (installing_note name entry i n) w) of
        (Inl e, v) \<Rightarrow> (Inl e, with_log (failed_note name e) v)
      | (Inr u, v) \<Rightarrow> install_loop env rest (i + 1) n v)"
  by (simp add: io_then_def io_bind_def io_catch_def logger_def io_throw_def
      with_log_def installing_note_def failed_note_def split: prod.splits sum.splits)

lemma install_loop_append:
  "install_loop env (xs @ ys) i n = io_bind (install_loop env xs i n) (\<lambda>j. install_loop env ys j n)"
proof (induction xs arbitrary: i)
  case Nil
  show ?case by (simp add: io_bind_def io_return_def)
next
  case (Cons x xs)
  obtain name entry where x: "x = (name, entry)" by (cases x)
  show ?case
    unfolding x append_Cons install_loop.simps Cons.IH
    by (auto simp: io_then_def io_bind_def fun_eq_iff split: prod.splits sum.splits)
qed

lemma install_loop_count:
  "install_loop env xs i n w = (Inr k, w1) \<Longrightarrow> k = i + length xs"
proof (induction xs arbitrary: i w)
  case Nil
  then show ?case by (simp add: io_return_def)
next
  case (Cons x xs)
  obtain name entry where x: "x = (name, entry)" by (cases x)
  from Cons.prems show ?case
    unfolding x install_loop_step
    by (auto split: prod.splits sum.splits dest!: Cons.IH)
qed

lemma frame_installCraft_own:
  assumes name: "safe_name name"
      and fl: "truthy (le_file entry) \<Longrightarrow> basename (show_opt (le_file entry)) \<noteq> ''..''"
  shows "preserves (frame (craftDir_of env (le_type entry) name) F) (installCraft env name entry)"
proof (rule frame_installCraft)
  show "prefix (craftDir_of env (le_type entry) name) (craftDir_of env (le_type entry) name)"
    by simp
  show "prefix (craftDir_of env (le_type entry) name)
     (path_join (craftDir_of env (le_type entry) name) (basename (show_opt (le_file entry))))"
    if "truthy (le_file entry)"
    using fl [OF that] by (simp add: path_join_segment [OF basename_no_slash])
qed


lemma show_nat_digits [simp]:
  "show_nat (Suc 0) = ''1''" "show_nat (Suc (Suc 0)) = ''2''" "show_nat (Suc (Suc (Suc 0))) = ''3''"
  by (simp_all add: show_nat.simps show_digit_def)


section \<open>Removing a craft\<close>

lemma file_at_map_of: "file_at fs p = Some d \<longleftrightarrow> map_of fs p = Some (File d)"
  by (auto simp: file_at_def split: option.splits node.splits)

lemma file_at_pathExists: "file_at fs q = Some d \<Longrightarrow> prefix b q \<Longrightarrow> pathExists fs b"
  by (auto simp: file_at_map_of pathExists_iff dest!: map_of_SomeD intro!: bexI [of _ "(q, File d)"])

lemma file_at_not_dir: "file_at fs q = Some d \<Longrightarrow> \<not> isDirectory fs q"
  by (simp add: isDirectory_def isFile_file_at)

lemma fs_readFile_file_at: "file_at (files w) p = Some d \<Longrightarrow> fs_readFile p w = (Inr d, w)"
  by (simp add: fs_readFile_def file_at_map_of)

lemma fs_writeFile_over_file:
  assumes "\<not> isDirectory (files w) (b @ [f])" "pathExists (files w) b"
  shows "fs_writeFile (b @ [f]) d w = (Inr (), w\<lparr>files := AList.update (b @ [f]) (File d) (files w)\<rparr>)"
  using assms by (simp add: fs_writeFile_def)

lemma remove_path_keeps_file:
  assumes f: "file_at fs (b @ [f]) = Some d" and np: "\<not> prefix p b"
  shows "\<not> isDirectory (remove_path p fs) (b @ [f]) \<and> pathExists (remove_path p fs) b"
proof (cases "prefix p (b @ [f])")
  case False
  then have "file_at (remove_path p fs) (b @ [f]) = Some d"
    using f by (simp add: file_at_remove_path)
  then show ?thesis
    using file_at_not_dir file_at_pathExists [of _ "b @ [f]" d b] by auto
next
  case True
  then have p: "p = b @ [f]" using np by (auto simp: prefix_snoc)
  have ex: "pathExists fs p" using f file_at_pathExists [of fs p d p] by (simp add: p)
  have "\<not> pathExists (remove_path p fs) p" by (rule not_pathExists_remove_path)
  then have 1: "\<not> isDirectory (remove_path p fs) (b @ [f])"
    by (simp add: isDirectory_def p)
  have 2: "pathExists (remove_path p fs) b"
    using ex by (auto simp: remove_path_def Let_def p pathExists_append pathExists_single)
  show ?thesis using 1 2 by simp
qed

lemma never_throws_sm_unregister_block:
  "never_throws (io_catch (io_then (sm_unregisterPlugin e n) (logger l)) (\<lambda>e. logger (h e)))"
  by (intro nothrow)

lemma never_throws_removeCraft [nothrow]: "never_throws (removeCraft env name t)"
  unfolding removeCraft_def by (intro nothrow)

lemma files_kept_logs: "logs_closed (\<lambda>w. files w = F)" "settings_indep (\<lambda>w. files w = F)"
  by (simp_all add: logs_closed_def settings_indep_def)

lemma removeCraft_files:
  "files (snd (removeCraft env name t w)) =
     (if pathExists (files w) (craftDir_of env t name)
      then remove_path (craftDir_of env t name) (files w) else files w)"
proof (cases "pathExists (files w) (craftDir_of env t name)")
  case False
  then show ?thesis
    by (simp add: removeCraft_def Let_def io_bind_def fs_pathExists_def logger_def)
next
  case True
  let ?A = "(if t = ''plugin'' then
              io_catch
                (io_then (sm_unregisterPlugin (sm_env env) name)
                         (logger (Debug (''Unregistered plugin '' @ name @ '' from settings''))))
                (\<lambda>e. logger (Warn (''Failed to unregister plugin: '' @ message e)))
            else io_return ())"
  have nt: "never_throws ?A" by (intro nothrow)
  have pr: "preserves (\<lambda>v. files v = files w) ?A"
    by (intro pres files_kept_logs)
  from never_throwsD [OF nt, of w] obtain x w1 where a: "?A w = (Inr x, w1)" by blast
  have f1: "files w1 = files w"
    using preservesD [OF pr, of w] a by simp
  have "removeCraft env name t w =
        io_then ?A (io_then (fs_remove (craftDir_of env t name)) (logger (Success (''Removed '' @ name)))) w"
    using True by (simp add: removeCraft_def Let_def io_bind_def fs_pathExists_def)
  also have "\<dots> = io_then (fs_remove (craftDir_of env t name)) (logger (Success (''Removed '' @ name))) w1"
    using a by (simp add: io_then_def io_bind_def)
  finally show ?thesis
    using True by (simp add: io_then_def io_bind_def fs_remove_def logger_def f1)
qed

lemma foreach_logger:
  "io_foreach xs (\<lambda>x. logger (g x)) w = (Inr (), w\<lparr>logs := logs w @ map g xs\<rparr>)"
  by (induction xs arbitrary: w) (simp_all add: io_return_def io_then_def io_bind_def logger_def)

lemma json_path_eq: "json_path env = cwd env @ [''craftdesk.json'']"
  and lock_path_eq: "lock_path env = cwd env @ [''craftdesk.lock'']"
  by (simp_all add: json_path_def lock_path_def)

lemma readCraftDeskJson_ok:
  "file_at (files w) (json_path env) = Some (CraftDeskJson cdj) \<Longrightarrow>
     readCraftDeskJson (cwd env) w = (Inr (Some cdj), w)"
  by (simp add: readCraftDeskJson_def io_catch_def io_bind_def io_return_def json_path_eq
      fs_readFile_file_at)

lemma readCraftDeskLock_ok:
  "file_at (files w) (lock_path env) = Some (LockJson l) \<Longrightarrow>
     readCraftDeskLock (cwd env) w = (Inr (Some l), w)"
  by (simp add: readCraftDeskLock_def io_catch_def io_bind_def io_return_def lock_path_eq
      fs_readFile_file_at)

lemma map_of_pruned:
  "map_of (map (\<lambda>(n, i). (n, prune_node c i)) (AList.delete c t)) c = None"
  by (induction t) auto

lemma not_mentions_prune: "\<not> mentions c (prune_node c i)"
  by (auto simp: mentions_def depends_on_def prune_node_def split: option.splits)

lemma update_lock_pruned:
  assumes "cl_pluginTree l = Some tree"
  shows "map_of (cl_crafts (update_lock l c)) c = None \<and>
         (\<exists>tree'. cl_pluginTree (update_lock l c) = Some tree' \<and> map_of tree' c = None \<and>
            (\<forall>(n, i)\<in>set tree'. \<not> mentions c i))"
  using assms
  by (auto simp: update_lock_def AList.delete_conv' map_of_pruned not_mentions_prune)

lemma dependents_listed:
  "(n, i) \<in> set tree \<Longrightarrow> depends_on c i \<Longrightarrow>
     dependent_line n i \<in> (\<lambda>d. Warn (''  - '' @ d)) ` set (dependents_of tree c)"
  by (force simp: dependents_of_def dependent_line_def)

lemma removeCommand_blocked:
  assumes cdj: "file_at (files w) (json_path env) = Some (CraftDeskJson cdj)"
      and lock: "file_at (files w) (lock_path env) = Some (LockJson l)"
      and tree: "cl_pluginTree l = Some tree"
      and dep: "dependents_of tree c \<noteq> []"
  shows "removeCommand env c False w =
           (Inr (Exited 1),
            w\<lparr>logs := logs w @ Warn (''Warning: '' @ c @ '' is required by:'') #
                  map (\<lambda>d. Warn (''  - '' @ d)) (dependents_of tree c) @
                  [Log [], Info ''Use --force to remove anyway'']\<rparr>)"
  using dep
  by (simp add: removeCommand_def io_catch_def io_bind_def io_then_def
      readCraftDeskJson_ok [OF cdj] readCraftDeskLock_ok [OF lock] blocking_dependents_def tree
      Let_def foreach_logger [unfolded logger_def] logger_def io_return_def)

lemma removeCommand_not_listed:
  assumes cdj: "file_at (files w) (json_path env) = Some (CraftDeskJson cdj)"
      and lock: "file_at (files w) (lock_path env) = Some (LockJson l)"
      and tree: "cl_pluginTree l = Some tree"
      and nf: "fst (remove_from_fields cdj c) = None"
  shows "fst (removeCommand env c True w) = Inr (Exited 1) \<and>
         files (snd (removeCommand env c True w)) = files w"
proof -
  obtain j where "remove_from_fields cdj c = (None, j)"
    using nf by (cases "remove_from_fields cdj c") auto
  then show ?thesis
    by (simp add: removeCommand_def io_catch_def io_bind_def io_then_def
      readCraftDeskJson_ok [OF cdj] readCraftDeskLock_ok [OF lock] blocking_dependents_def tree
      Let_def logger_def io_return_def)
qed

lemma removeCommand_forced:
  assumes cdj: "file_at (files w) (json_path env) = Some (CraftDeskJson cdj)"
      and lock: "file_at (files w) (lock_path env) = Some (LockJson l)"
      and tree: "cl_pluginTree l = Some tree"
      and found: "fst (remove_from_fields cdj c) \<noteq> None"
      and entry: "map_of (cl_crafts l) c = Some entry"
      and apart: "\<not> prefix (craftDir_of env (le_type entry) c) (cwd env)"
  shows "fst (removeCommand env c True w) = Inr Returned \<and>
         file_at (files (snd (removeCommand env c True w))) (lock_path env) =
           Some (LockJson (update_lock l c))"
proof -
  let ?jp = "cwd env @ [''craftdesk.json'']"
  let ?lp = "cwd env @ [''craftdesk.lock'']"
  let ?cd = "craftDir_of env (le_type entry) c"
  obtain field cdj' where rf: "remove_from_fields cdj c = (Some field, cdj')"
    using found by (cases "remove_from_fields cdj c") auto
  have cwd_ex: "pathExists (files w) (cwd env)"
    using file_at_pathExists [OF cdj, of "cwd env"] by (simp add: json_path_eq)
  have "\<not> isDirectory (files w) ?jp"
    using file_at_not_dir [OF cdj] by (simp add: json_path_eq)
  from fs_writeFile_over_file [OF this cwd_ex]
  have w1: "writeCraftDeskJson cdj' (cwd env) w =
      (Inr (), w\<lparr>files := AList.update ?jp (File (CraftDeskJson cdj')) (files w)\<rparr>)"
    by (simp add: writeCraftDeskJson_def)
  let ?w2 = "w\<lparr>files := AList.update ?jp (File (CraftDeskJson cdj')) (files w),
              logs := logs w @ [Success (''Removed '' @ c @ '' from '' @ field)]\<rparr>"
  have lock2: "file_at (files ?w2) ?lp = Some (LockJson l)"
    using lock by (simp add: file_at_update lock_path_eq)
  from never_throwsD [OF never_throws_removeCraft, of env c "le_type entry" ?w2]
  obtain u w3 where rc: "removeCraft env c (le_type entry) ?w2 = (Inr u, w3)" by blast
  have f3: "files w3 = (if pathExists (files ?w2) ?cd then remove_path ?cd (files ?w2) else files ?w2)"
    using removeCraft_files [of env c "le_type entry" ?w2] unfolding rc by simp
  have ok3: "\<not> isDirectory (files w3) ?lp \<and> pathExists (files w3) (cwd env)"
  proof (cases "pathExists (files ?w2) ?cd")
    case True
    then show ?thesis
      using remove_path_keeps_file [OF lock2 apart] by (simp add: f3)
  next
    case False
    then show ?thesis
      using file_at_not_dir [OF lock2] file_at_pathExists [OF lock2, of "cwd env"] by (simp add: f3)
  qed
  then have w4: "writeCraftDeskLock (update_lock l c) (cwd env) w3 =
      (Inr (), w3\<lparr>files := AList.update ?lp (File (LockJson (update_lock l c))) (files w3)\<rparr>)"
    using fs_writeFile_over_file [of w3 "cwd env" "''craftdesk.lock''"]
    by (simp add: writeCraftDeskLock_def)
  have ri: "remove_installed env (Some l) c ?w2 =
      (Inr (), w3\<lparr>files := AList.update ?lp (File (LockJson (update_lock l c))) (files w3),
                 logs := logs w3 @ [Success ''Updated craftdesk.lock'']\<rparr>)"
    by (simp add: remove_installed_def entry io_then_def io_bind_def rc [simplified] w4 logger_def)
  have "removeCommand env c True w =
      (Inr Returned, w3\<lparr>files := AList.update ?lp (File (LockJson (update_lock l c))) (files w3),
                 logs := logs w3 @ [Success ''Updated craftdesk.lock'', Success ''Craft removed successfully!'']\<rparr>)"
    by (simp add: removeCommand_def io_catch_def io_bind_def io_then_def
      readCraftDeskJson_ok [OF cdj] readCraftDeskLock_ok [OF lock] blocking_dependents_def tree
      Let_def logger_def io_return_def rf w1 ri [simplified])
  then show ?thesis
    by (simp add: file_at_update lock_path_eq)
qed

lemmas remove_defs = removeCommand_def readCraftDeskJson_def readCraftDeskLock_def
  writeCraftDeskJson_def writeCraftDeskLock_def blocking_dependents_def dependents_of_def
  depends_on_def remove_from_fields_def in_field_def delete_from_field_def dep_truthy_def
  remove_installed_def removeCraft_def update_lock_def prune_node_def

lemmas remove_example_defs = project_with_def json_a_def json_ab_def lock_ab_def node_a_def
  node_b_def




end
